theory Spec2Isabelle
  imports Main "HOL-Library.AList"
begin

section \<open>Data model (bridge/types.ts, utils/errors.ts)\<close>

text \<open>
  The transport bridge keeps three JavaScript \<open>Map\<close>s (servers, connections, bridges)
  whose values are mutable objects. A \<open>Map\<close> is modelled as an association list in
  insertion order (\<open>AList.update\<close> is \<open>Map.set\<close>: it overwrites in place or appends),
  an object as a record, an optional field as an \<open>option\<close>, and every mutation as an
  update of the state that is passed along.
\<close>

datatype TransportType = Stdio | Sse | Memory

datatype ServerStatus = STARTING | RUNNING | STOPPING | STOPPED | SERVER_ERROR

datatype ConnectionStatus =
  CONNECTING | CONNECTED | DISCONNECTING | DISCONNECTED | CONNECTION_ERROR

datatype ErrorCode =
    UNKNOWN_ERROR | INVALID_CONFIGURATION
  | SERVER_NOT_FOUND | SERVER_ALREADY_EXISTS | SERVER_START_FAILED | SERVER_STOP_FAILED
  | CONNECTION_NOT_FOUND | CONNECTION_ALREADY_EXISTS | CONNECTION_FAILED
  | TRANSPORT_ERROR | TRANSPORT_NOT_SUPPORTED
  | PROTOCOL_ERROR | API_ERROR | VALIDATION_ERROR

text \<open>
  A thrown value: a \<open>BridgeError\<close> (or one of its subclasses) with its code and its
  optional cause, or a plain \<open>Error\<close> (raised by Node, by the SDK, or by
  \<open>BaseProtocolHandler.start\<close>).
\<close>

datatype err = BridgeError ErrorCode "err option" | PlainError



record ServerConfig =
  sc_id :: "string option"
  sc_name :: string
  sc_version :: string
  sc_command :: string
  sc_args :: "string list option"
  sc_cwd :: "string option"
  sc_env :: "(string \<rightharpoonup> string) option"
  sc_transport :: TransportType
  sc_sseOptions :: "(nat option \<times> string option) option"
  sc_autoRestart :: "bool option"
  sc_maxRestarts :: "int option"
  sc_restartDelay :: "int option"

record ConnectionConfig =
  cc_id :: "string option"
  cc_name :: string
  cc_version :: string
  cc_serverId :: string
  cc_transport :: TransportType
  cc_timeout :: "int option"
  cc_reconnect :: "bool option"
  cc_maxReconnects :: "int option"
  cc_reconnectDelay :: "int option"

subsection \<open>Transport adapters (adapters/base.ts, stdio.ts, sse.ts, memory.ts)\<close>

datatype AdapterKind = StdioClient | StdioServer | SSEClient | SSEServer | InMemory

datatype Upcall = HandleClientMessage | HandleServerMessage

text \<open>
  One record for the five adapter classes: the fields of \<open>BaseTransportAdapter\<close>
  (\<open>transport\<close> is the handle of the SDK transport, present once started) and the
  private fields of the subclasses, absent where a class does not have them. The adapter
  holds a reference to the server's config object, not a copy: \<open>a_config\<close> is the id
  of that config. The optional \<open>sessionId\<close> of the in-memory adapter is left out: no
  caller passes one.
\<close>

record Adapter =
  a_kind :: AdapterKind
  a_transport :: "nat option"
  a_messageHandler :: "Upcall option"
  a_errorHandler :: bool
  a_closeHandler :: bool
  a_config :: "string option"
  a_process :: "nat option"
  a_serverProcess :: "nat option"
  a_otherTransport :: "nat option"
  a_endpoint :: "string option"
  a_res :: "nat option"

record BridgeHandler =
  h_name :: string
  h_clientAdapter :: "Adapter option"
  h_serverAdapter :: "Adapter option"

record ServerInstance =
  si_id :: string
  si_config :: ServerConfig
  si_status :: ServerStatus
  si_process :: "nat option"
  si_transport :: "Adapter option"
  si_error :: "err option"
  si_startTime :: "nat option"
  si_restartCount :: nat

record ConnectionInstance =
  ci_id :: string
  ci_config :: ConnectionConfig
  ci_status :: ConnectionStatus
  ci_transport :: "Adapter option"
  ci_error :: "err option"
  ci_connectTime :: "nat option"
  ci_reconnectCount :: nat

text \<open>
  A child process: whether Node assigned it a pid, whether it is still alive, and the
  servers whose exit watcher (installed by \<open>startServer\<close>) listens on it. A process
  handle is an index into \<open>procs\<close>.
\<close>

record Proc =
  p_hasPid :: bool
  p_alive :: bool
  p_exitWatchers :: "string list"

record State =
  servers :: "(string \<times> ServerInstance) list"
  connections :: "(string \<times> ConnectionInstance) list"
  bridges :: "(string \<times> BridgeHandler) list"
  procs :: "Proc list"
  timers :: "(int \<times> string) list"
  closedTransports :: "nat list"
  nextTransport :: nat
  io :: nat
  uuidCount :: nat
  clock :: nat

text \<open>
  What the program does not decide: whether the n-th call into Node or the SDK
  succeeds, the values of \<open>randomUUID()\<close>, and which strings \<open>new URL\<close> accepts.
\<close>

record World =
  io_ok :: "nat \<Rightarrow> bool"
  randomUUID :: "nat \<Rightarrow> string"
  url_ok :: "string \<Rightarrow> bool"

subsection \<open>Outcomes of an operation\<close>

text \<open>
  An operation returns, throws, or never settles (an awaited promise that is never
  resolved). A \<open>catch\<close> block sees a thrown error only.
\<close>

datatype 'a outcome = Returned 'a | Thrown err | Pending

type_synonym 'a M = "State \<Rightarrow> 'a outcome \<times> State"

definition returnM :: "'a \<Rightarrow> 'a M" where
  "returnM x = (\<lambda>s. (Returned x, s))"

definition throwM :: "err \<Rightarrow> 'a M" where
  "throwM e = (\<lambda>s. (Thrown e, s))"

definition bindM :: "'a M \<Rightarrow> ('a \<Rightarrow> 'b M) \<Rightarrow> 'b M" where
  "bindM m f = (\<lambda>s. case m s of
      (Returned x, s') \<Rightarrow> f x s'
    | (Thrown e, s') \<Rightarrow> (Thrown e, s')
    | (Pending, s') \<Rightarrow> (Pending, s'))"

definition tryCatch :: "'a M \<Rightarrow> (err \<Rightarrow> 'a M) \<Rightarrow> 'a M" where
  "tryCatch m h = (\<lambda>s. case m s of
      (Thrown e, s') \<Rightarrow> h e s'
    | r \<Rightarrow> r)"

fun forEachM :: "'a list \<Rightarrow> ('a \<Rightarrow> unit M) \<Rightarrow> unit M" where
  "forEachM [] f s = (Returned (), s)"
| "forEachM (x # xs) f s = (case f x s of
      (Returned _, s') \<Rightarrow> forEachM xs f s'
    | (Thrown e, s') \<Rightarrow> (Thrown e, s')
    | (Pending, s') \<Rightarrow> (Pending, s'))"

text \<open>One call into Node or the SDK: the world says whether it succeeds.\<close>

definition extCall :: "World \<Rightarrow> bool M" where
  "extCall w = (\<lambda>s. (Returned (io_ok w (io s)), s\<lparr>io := Suc (io s)\<rparr>))"

section \<open>Server registry (bridge/registry.ts)\<close>

definition registerServer :: "World \<Rightarrow> ServerConfig \<Rightarrow> ServerInstance M" where
  "registerServer w config = (\<lambda>s.
     let (sid, s1) = (case sc_id config of
                        Some i \<Rightarrow> (i, s)
                      | None \<Rightarrow> (randomUUID w (uuidCount s), s\<lparr>uuidCount := Suc (uuidCount s)\<rparr>))
     in if map_of (servers s1) sid \<noteq> None
        then (Thrown (BridgeError SERVER_ALREADY_EXISTS None), s1)
        else
          let server = \<lparr> si_id = sid,
                         si_config = config\<lparr>sc_id := Some sid\<rparr>,
                         si_status = STOPPED,
                         si_process = None,
                         si_transport = None,
                         si_error = None,
                         si_startTime = None,
                         si_restartCount = 0 \<rparr>
          in (Returned server, s1\<lparr>servers := AList.update sid server (servers s1)\<rparr>))"

definition getServer :: "string \<Rightarrow> ServerInstance M" where
  "getServer sid = (\<lambda>s. case map_of (servers s) sid of
      None \<Rightarrow> (Thrown (BridgeError SERVER_NOT_FOUND None), s)
    | Some server \<Rightarrow> (Returned server, s))"

definition unregisterServer :: "string \<Rightarrow> unit M" where
  "unregisterServer sid = bindM (getServer sid) (\<lambda>server.
     if si_status server \<noteq> STOPPED
     then throwM (BridgeError SERVER_STOP_FAILED None)
     else (\<lambda>s. (Returned (), s\<lparr>servers := AList.delete sid (servers s)\<rparr>)))"

definition getAllServers :: "ServerInstance list M" where
  "getAllServers = (\<lambda>s. (Returned (map snd (servers s)), s))"

text \<open>
  The setters mutate the instance held by the map; the entry keeps its place.
\<close>

definition putServer :: "string \<Rightarrow> ServerInstance \<Rightarrow> unit M" where
  "putServer sid server = (\<lambda>s. (Returned (), s\<lparr>servers := AList.update sid server (servers s)\<rparr>))"

definition updateServerStatus :: "string \<Rightarrow> ServerStatus \<Rightarrow> err option \<Rightarrow> unit M" where
  "updateServerStatus sid status error = bindM (getServer sid) (\<lambda>server s.
     putServer sid (server\<lparr>
         si_status := status,
         si_error := (case error of
                        Some e \<Rightarrow> Some e
                      | None \<Rightarrow> if status \<noteq> SERVER_ERROR then None else si_error server),
         si_startTime := (if status = RUNNING then Some (clock s) else si_startTime server)\<rparr>) s)"

definition updateServerProcess :: "string \<Rightarrow> nat option \<Rightarrow> unit M" where
  "updateServerProcess sid process = bindM (getServer sid) (\<lambda>server.
     putServer sid (server\<lparr>si_process := process\<rparr>))"

definition updateServerTransport :: "string \<Rightarrow> Adapter option \<Rightarrow> unit M" where
  "updateServerTransport sid transport = bindM (getServer sid) (\<lambda>server.
     putServer sid (server\<lparr>si_transport := transport\<rparr>))"

definition incrementRestartCount :: "string \<Rightarrow> nat M" where
  "incrementRestartCount sid = bindM (getServer sid) (\<lambda>server.
     bindM (putServer sid (server\<lparr>si_restartCount := si_restartCount server + 1\<rparr>)) (\<lambda>_.
     returnM (si_restartCount server + 1)))"

definition resetRestartCount :: "string \<Rightarrow> unit M" where
  "resetRestartCount sid = bindM (getServer sid) (\<lambda>server.
     putServer sid (server\<lparr>si_restartCount := 0\<rparr>))"

definition shouldRestartServer :: "string \<Rightarrow> bool M" where
  "shouldRestartServer sid = bindM (getServer sid) (\<lambda>server.
     if sc_autoRestart (si_config server) \<noteq> Some True then returnM False
     else if (case sc_maxRestarts (si_config server) of
                None \<Rightarrow> False
              | Some m \<Rightarrow> int (si_restartCount server) \<ge> m) then returnM False
     else returnM True)"

definition getServerRestartDelay :: "string \<Rightarrow> int M" where
  "getServerRestartDelay sid = bindM (getServer sid) (\<lambda>server.
     returnM (case sc_restartDelay (si_config server) of None \<Rightarrow> 1000 | Some d \<Rightarrow> d))"

text \<open>
  \<open>ServerRegistry.updateServerEnvironment\<close>: the object spread
  \<open>{...(env || {}), ...delta}\<close> is the map override \<open>++\<close>.
\<close>

definition mergeEnv :: "(string \<rightharpoonup> string) option \<Rightarrow> (string \<rightharpoonup> string) \<Rightarrow> (string \<rightharpoonup> string)" where
  "mergeEnv old delta = (case old of None \<Rightarrow> Map.empty | Some e \<Rightarrow> e) ++ delta"

definition ServerRegistry_updateServerEnvironment :: "string \<Rightarrow> (string \<rightharpoonup> string) \<Rightarrow> bool M" where
  "ServerRegistry_updateServerEnvironment sid delta = bindM (getServer sid) (\<lambda>server.
     bindM (putServer sid
              (server\<lparr>si_config := (si_config server)\<lparr>sc_env := Some (mergeEnv (sc_env (si_config server)) delta)\<rparr>\<rparr>)) (\<lambda>_.
     if si_status server = RUNNING then returnM True else returnM False))"

section \<open>Connection registry (bridge/connection.ts)\<close>

definition createConnection :: "World \<Rightarrow> ConnectionConfig \<Rightarrow> ConnectionInstance M" where
  "createConnection w config = (\<lambda>s.
     let (cid, s1) = (case cc_id config of
                        Some i \<Rightarrow> (i, s)
                      | None \<Rightarrow> (randomUUID w (uuidCount s), s\<lparr>uuidCount := Suc (uuidCount s)\<rparr>))
     in if map_of (connections s1) cid \<noteq> None
        then (Thrown (BridgeError CONNECTION_ALREADY_EXISTS None), s1)
        else
          let connection = \<lparr> ci_id = cid,
                             ci_config = config\<lparr>cc_id := Some cid\<rparr>,
                             ci_status = DISCONNECTED,
                             ci_transport = None,
                             ci_error = None,
                             ci_connectTime = None,
                             ci_reconnectCount = 0 \<rparr>
          in (Returned connection,
              s1\<lparr>connections := AList.update cid connection (connections s1)\<rparr>))"

definition getConnection :: "string \<Rightarrow> ConnectionInstance M" where
  "getConnection cid = (\<lambda>s. case map_of (connections s) cid of
      None \<Rightarrow> (Thrown (BridgeError CONNECTION_NOT_FOUND None), s)
    | Some connection \<Rightarrow> (Returned connection, s))"

definition removeConnection :: "string \<Rightarrow> unit M" where
  "removeConnection cid = bindM (getConnection cid) (\<lambda>connection.
     if ci_status connection \<noteq> DISCONNECTED
     then throwM (BridgeError CONNECTION_FAILED None)
     else (\<lambda>s. (Returned (), s\<lparr>connections := AList.delete cid (connections s)\<rparr>)))"

definition getAllConnections :: "ConnectionInstance list M" where
  "getAllConnections = (\<lambda>s. (Returned (map snd (connections s)), s))"

definition getConnectionsForServer :: "string \<Rightarrow> ConnectionInstance list M" where
  "getConnectionsForServer serverId = bindM getAllConnections (\<lambda>all.
     returnM (filter (\<lambda>connection. cc_serverId (ci_config connection) = serverId) all))"

definition putConnection :: "string \<Rightarrow> ConnectionInstance \<Rightarrow> unit M" where
  "putConnection cid connection =
     (\<lambda>s. (Returned (), s\<lparr>connections := AList.update cid connection (connections s)\<rparr>))"

definition updateConnectionStatus :: "string \<Rightarrow> ConnectionStatus \<Rightarrow> err option \<Rightarrow> unit M" where
  "updateConnectionStatus cid status error = bindM (getConnection cid) (\<lambda>connection s.
     putConnection cid (connection\<lparr>
         ci_status := status,
         ci_error := (case error of
                        Some e \<Rightarrow> Some e
                      | None \<Rightarrow> if status \<noteq> CONNECTION_ERROR then None else ci_error connection),
         ci_connectTime := (if status = CONNECTED then Some (clock s) else ci_connectTime connection)\<rparr>) s)"

definition updateConnectionTransport :: "string \<Rightarrow> Adapter option \<Rightarrow> unit M" where
  "updateConnectionTransport cid transport = bindM (getConnection cid) (\<lambda>connection.
     putConnection cid (connection\<lparr>ci_transport := transport\<rparr>))"

definition resetReconnectCount :: "string \<Rightarrow> unit M" where
  "resetReconnectCount cid = bindM (getConnection cid) (\<lambda>connection.
     putConnection cid (connection\<lparr>ci_reconnectCount := 0\<rparr>))"


section \<open>Processes (utils/process.ts)\<close>

definition procAt :: "State \<Rightarrow> nat \<Rightarrow> Proc option" where
  "procAt s p = (if p < length (procs s) then Some (procs s ! p) else None)"

text \<open>
  \<open>spawnProcess\<close>: \<open>spawn\<close> may throw, which is wrapped in SERVER_START_FAILED; otherwise
  it returns a child process, which has a pid unless the launch failed asynchronously.
\<close>

definition spawnProcess :: "World \<Rightarrow> nat M" where
  "spawnProcess w = bindM (extCall w) (\<lambda>ok.
     if \<not> ok then throwM (BridgeError SERVER_START_FAILED (Some PlainError))
     else bindM (extCall w) (\<lambda>hasPid s.
       (Returned (length (procs s)),
        s\<lparr>procs := procs s @ [\<lparr>p_hasPid = hasPid, p_alive = hasPid, p_exitWatchers = []\<rparr>]\<rparr>)))"

text \<open>\<open>process.on("exit", ...)\<close> as \<open>startServer\<close> calls it, for server \<open>sid\<close>.\<close>

definition on_exit :: "nat \<Rightarrow> string \<Rightarrow> unit M" where
  "on_exit p sid = (\<lambda>s. case procAt s p of
      None \<Rightarrow> (Returned (), s)
    | Some pr \<Rightarrow>
        (Returned (),
         s\<lparr>procs := (procs s)[p := pr\<lparr>p_exitWatchers := p_exitWatchers pr @ [sid]\<rparr>]\<rparr>))"

text \<open>
  The exit watcher of \<open>startServer\<close> (manager.ts, the callback of
  \<open>process.on("exit", ...)\<close>): the status becomes STOPPED, and when the registry allows
  a restart the count goes up and \<open>setTimeout\<close> queues a call of \<open>startServer\<close>.
\<close>

definition exitWatcher :: "string \<Rightarrow> unit M" where
  "exitWatcher sid =
     bindM (updateServerStatus sid STOPPED None) (\<lambda>_.
     bindM (shouldRestartServer sid) (\<lambda>restart.
       if restart then
         bindM (incrementRestartCount sid) (\<lambda>restartCount.
         bindM (getServerRestartDelay sid) (\<lambda>delay s.
           (Returned (), s\<lparr>timers := timers s @ [(delay, sid)]\<rparr>)))
       else returnM ()))"

text \<open>The process dies and Node calls its exit listeners in the order they were added.\<close>

definition emitExit :: "nat \<Rightarrow> unit M" where
  "emitExit p = (\<lambda>s. case procAt s p of
      None \<Rightarrow> (Returned (), s)
    | Some pr \<Rightarrow>
        forEachM (p_exitWatchers pr) exitWatcher
          (s\<lparr>procs := (procs s)[p := pr\<lparr>p_alive := False\<rparr>]\<rparr>))"

text \<open>
  \<open>killProcess\<close>: nothing to do without a pid; otherwise SIGTERM (then SIGKILL) and wait
  for the exit event, which runs the exit listeners first. A process that is already dead
  emits nothing, so the promise never settles; neither does it when a listener throws.
  The world decides whether the process reports an error instead of exiting.
\<close>

definition killProcess :: "World \<Rightarrow> nat \<Rightarrow> unit M" where
  "killProcess w p = (\<lambda>s. case procAt s p of
      None \<Rightarrow> (Returned (), s)
    | Some pr \<Rightarrow>
        if \<not> p_hasPid pr then (Returned (), s)
        else if \<not> p_alive pr then (Pending, s)
        else bindM (extCall w) (\<lambda>ok.
               if ok then (\<lambda>s1. case emitExit p s1 of
                                   (Returned _, s2) \<Rightarrow> (Returned (), s2)
                                 | (_, s2) \<Rightarrow> (Pending, s2))
               else throwM PlainError) s)"

section \<open>Transport adapters (adapters/base.ts, stdio.ts, sse.ts, memory.ts, factory.ts)\<close>

definition newTransport :: "nat M" where
  "newTransport = (\<lambda>s. (Returned (nextTransport s), s\<lparr>nextTransport := Suc (nextTransport s)\<rparr>))"

definition transport_start :: "World \<Rightarrow> nat \<Rightarrow> unit M" where
  "transport_start w t = bindM (extCall w) (\<lambda>ok.
     if ok then returnM () else throwM PlainError)"

definition transport_close :: "World \<Rightarrow> nat \<Rightarrow> unit M" where
  "transport_close w t = bindM (extCall w) (\<lambda>ok.
     if ok then (\<lambda>s. (Returned (), s\<lparr>closedTransports := closedTransports s @ [t]\<rparr>))
     else throwM PlainError)"

definition newAdapter :: "AdapterKind \<Rightarrow> Adapter" where
  "newAdapter k = \<lparr> a_kind = k, a_transport = None, a_messageHandler = None,
                    a_errorHandler = False, a_closeHandler = False, a_config = None,
                    a_process = None, a_serverProcess = None, a_otherTransport = None,
                    a_endpoint = None, a_res = None \<rparr>"

text \<open>A string that JavaScript treats as false: undefined or empty.\<close>

definition falsy :: "string option \<Rightarrow> bool" where
  "falsy x = (x = None \<or> x = Some [])"

record ClientAdapterOptions =
  co_serverProcess :: "nat option"
  co_url :: "string option"
  co_otherTransport :: "nat option"

record ServerAdapterOptions =
  so_config :: ServerConfig
  so_endpoint :: "string option"
  so_res :: "nat option"
  so_otherTransport :: "nat option"

text \<open>
  The factory. Its \<open>default\<close> branches (TRANSPORT_NOT_SUPPORTED) are not reachable from
  a value of \<open>TransportType\<close>.
\<close>

definition createClientAdapter :: "TransportType \<Rightarrow> ClientAdapterOptions \<Rightarrow> Adapter M" where
  "createClientAdapter transportType options = (case transportType of
      Stdio \<Rightarrow>
        if co_serverProcess options = None
        then throwM (BridgeError INVALID_CONFIGURATION None)
        else returnM ((newAdapter StdioClient)\<lparr>a_serverProcess := co_serverProcess options\<rparr>)
    | Sse \<Rightarrow>
        if co_url options = None
        then throwM (BridgeError INVALID_CONFIGURATION None)
        else returnM ((newAdapter SSEClient)\<lparr>a_endpoint := co_url options\<rparr>)
    | Memory \<Rightarrow>
        returnM ((newAdapter InMemory)\<lparr>a_otherTransport := co_otherTransport options\<rparr>))"

definition createServerAdapter :: "TransportType \<Rightarrow> ServerAdapterOptions \<Rightarrow> Adapter M" where
  "createServerAdapter transportType options = (case transportType of
      Stdio \<Rightarrow>
        returnM ((newAdapter StdioServer)\<lparr>a_config := sc_id (so_config options)\<rparr>)
    | Sse \<Rightarrow>
        if falsy (so_endpoint options) \<or> so_res options = None
        then throwM (BridgeError INVALID_CONFIGURATION None)
        else returnM ((newAdapter SSEServer)\<lparr>a_config := sc_id (so_config options),
                                              a_endpoint := so_endpoint options,
                                              a_res := so_res options\<rparr>)
    | Memory \<Rightarrow>
        returnM ((newAdapter InMemory)\<lparr>a_otherTransport := so_otherTransport options\<rparr>))"

definition getStdioProcess :: "Adapter \<Rightarrow> nat option" where
  "getStdioProcess adapter = (if a_kind adapter = StdioServer then a_process adapter else None)"

definition createLinkedInMemoryTransports :: "(nat \<times> nat) M" where
  "createLinkedInMemoryTransports =
     bindM newTransport (\<lambda>t1. bindM newTransport (\<lambda>t2. returnM (t1, t2)))"

text \<open>
  \<open>start()\<close> of the five adapter classes: a started adapter returns at once; otherwise
  the SDK transport is created (the stdio server adapter spawns the child first) and
  started, and any failure is wrapped in TRANSPORT_ERROR. The result is the adapter
  after the call; an adapter whose start threw is dropped by both callers.
\<close>

definition adapter_start :: "World \<Rightarrow> Adapter \<Rightarrow> Adapter M" where
  "adapter_start w a =
     (if a_transport a \<noteq> None then returnM a
      else tryCatch
        (case a_kind a of
           StdioServer \<Rightarrow>
             bindM (spawnProcess w) (\<lambda>p.
             bindM newTransport (\<lambda>t.
             bindM (transport_start w t) (\<lambda>_.
             returnM (a\<lparr>a_process := Some p, a_transport := Some t\<rparr>))))
         | InMemory \<Rightarrow>
             bindM (case a_otherTransport a of Some t \<Rightarrow> returnM t | None \<Rightarrow> newTransport) (\<lambda>t.
             bindM (transport_start w t) (\<lambda>_.
             returnM (a\<lparr>a_transport := Some t\<rparr>)))
         | _ \<Rightarrow>
             bindM newTransport (\<lambda>t.
             bindM (transport_start w t) (\<lambda>_.
             returnM (a\<lparr>a_transport := Some t\<rparr>))))
        (\<lambda>error. throwM (BridgeError TRANSPORT_ERROR (Some error))))"

text \<open>
  \<open>stop()\<close> (and its alias \<open>close()\<close>): \<open>BaseTransportAdapter.stop\<close> closes the SDK
  transport and forgets it; \<open>StdioServerAdapter.stop\<close> then forgets its process without
  killing it. When the close throws the adapter is as before.
\<close>

definition adapter_stop :: "World \<Rightarrow> Adapter \<Rightarrow> Adapter M" where
  "adapter_stop w a =
     bindM (case a_transport a of
              Some t \<Rightarrow> bindM (transport_close w t) (\<lambda>_. returnM (a\<lparr>a_transport := None\<rparr>))
            | None \<Rightarrow> returnM a) (\<lambda>a'.
     if a_kind a' = StdioServer then returnM (a'\<lparr>a_process := None\<rparr>) else returnM a')"

section \<open>Protocol handlers (handlers/base.ts and its three subclasses)\<close>

definition setClientAdapter :: "BridgeHandler \<Rightarrow> Adapter \<Rightarrow> BridgeHandler" where
  "setClientAdapter h adapter =
     h\<lparr>h_clientAdapter := Some (adapter\<lparr>a_messageHandler := Some HandleClientMessage,
                                        a_errorHandler := True, a_closeHandler := True\<rparr>)\<rparr>"

definition setServerAdapter :: "BridgeHandler \<Rightarrow> Adapter \<Rightarrow> BridgeHandler" where
  "setServerAdapter h adapter =
     h\<lparr>h_serverAdapter := Some (adapter\<lparr>a_messageHandler := Some HandleServerMessage,
                                        a_errorHandler := True, a_closeHandler := True\<rparr>)\<rparr>"

definition createHandler :: "string \<Rightarrow> Adapter \<Rightarrow> Adapter \<Rightarrow> BridgeHandler" where
  "createHandler name clientAdapter serverAdapter =
     setServerAdapter
       (setClientAdapter \<lparr>h_name = name, h_clientAdapter = None, h_serverAdapter = None\<rparr>
          clientAdapter)
       serverAdapter"

definition createStdioToSSEHandler :: "Adapter \<Rightarrow> Adapter \<Rightarrow> BridgeHandler" where
  "createStdioToSSEHandler = createHandler ''StdioToSSE''"

definition createSSEToStdioHandler :: "Adapter \<Rightarrow> Adapter \<Rightarrow> BridgeHandler" where
  "createSSEToStdioHandler = createHandler ''SSEToStdio''"

definition createMemoryToMemoryHandler :: "Adapter \<Rightarrow> Adapter \<Rightarrow> BridgeHandler" where
  "createMemoryToMemoryHandler = createHandler ''MemoryToMemory''"

text \<open>\<open>BaseProtocolHandler.start\<close>: the server adapter first, then the client adapter.\<close>

definition handler_start :: "World \<Rightarrow> BridgeHandler \<Rightarrow> BridgeHandler M" where
  "handler_start w h = (case (h_clientAdapter h, h_serverAdapter h) of
      (Some c, Some sa) \<Rightarrow>
        bindM (adapter_start w sa) (\<lambda>sa'.
        bindM (adapter_start w c) (\<lambda>c'.
        returnM (h\<lparr>h_clientAdapter := Some c', h_serverAdapter := Some sa'\<rparr>)))
    | _ \<Rightarrow> throwM PlainError)"

text \<open>
  \<open>BaseProtocolHandler.stop\<close>: stop the client adapter if set, then the server adapter
  if set. The handler object lives on whatever happens, so the handler after the call is
  part of the result.
\<close>

definition stopAdapterField ::
  "World \<Rightarrow> Adapter option \<Rightarrow> State \<Rightarrow> unit outcome \<times> Adapter option \<times> State" where
  "stopAdapterField w field s = (case field of
      None \<Rightarrow> (Returned (), None, s)
    | Some a \<Rightarrow> (case adapter_stop w a s of
        (Returned a', s') \<Rightarrow> (Returned (), Some a', s')
      | (Thrown e, s') \<Rightarrow> (Thrown e, Some a, s')
      | (Pending, s') \<Rightarrow> (Pending, Some a, s')))"

definition handler_stop ::
  "World \<Rightarrow> BridgeHandler \<Rightarrow> State \<Rightarrow> unit outcome \<times> BridgeHandler \<times> State" where
  "handler_stop w h s = (case stopAdapterField w (h_clientAdapter h) s of
      (Returned _, c', s1) \<Rightarrow>
        (case stopAdapterField w (h_serverAdapter h) s1 of
           (r, sa', s2) \<Rightarrow> (r, h\<lparr>h_clientAdapter := c', h_serverAdapter := sa'\<rparr>, s2))
    | (r, c', s1) \<Rightarrow> (r, h\<lparr>h_clientAdapter := c'\<rparr>, s1))"


section \<open>Bridge manager (bridge/manager.ts)\<close>

text \<open>
  A local variable such as \<open>server\<close> holds a reference to the instance in the registry,
  so the code reads the instance as it is at that moment. The model reads the registry
  again wherever the code reads a field after a call that may have changed it; no step
  of these operations deletes the entry in between.
\<close>

definition startServer :: "World \<Rightarrow> string \<Rightarrow> unit M" where
  "startServer w sid = bindM (getServer sid) (\<lambda>server.
     if si_status server = RUNNING then returnM ()
     else if si_status server = STARTING then returnM ()
     else tryCatch
       (bindM (updateServerStatus sid STARTING None) (\<lambda>_.
        bindM (createServerAdapter (sc_transport (si_config server))
                 \<lparr>so_config = si_config server, so_endpoint = None, so_res = None,
                  so_otherTransport = None\<rparr>) (\<lambda>created.
        bindM (adapter_start w created) (\<lambda>serverAdapter.
        bindM (if sc_transport (si_config server) = Stdio then
                 (case getStdioProcess serverAdapter of
                    Some process \<Rightarrow>
                      bindM (updateServerProcess sid (Some process)) (\<lambda>_.
                      on_exit process sid)
                  | None \<Rightarrow> returnM ())
               else returnM ()) (\<lambda>_.
        bindM (updateServerTransport sid (Some serverAdapter)) (\<lambda>_.
        bindM (updateServerStatus sid RUNNING None) (\<lambda>_.
        resetRestartCount sid)))))))
       (\<lambda>error.
        bindM (updateServerStatus sid SERVER_ERROR (Some error)) (\<lambda>_.
        throwM (BridgeError SERVER_START_FAILED (Some error)))))"

definition getBridge :: "string \<Rightarrow> BridgeHandler option M" where
  "getBridge cid = (\<lambda>s. (Returned (map_of (bridges s) cid), s))"

definition setBridge :: "string \<Rightarrow> BridgeHandler \<Rightarrow> unit M" where
  "setBridge cid h = (\<lambda>s. (Returned (), s\<lparr>bridges := AList.update cid h (bridges s)\<rparr>))"

definition deleteBridge :: "string \<Rightarrow> unit M" where
  "deleteBridge cid = (\<lambda>s. (Returned (), s\<lparr>bridges := AList.delete cid (bridges s)\<rparr>))"

text \<open>
  \<open>await bridge.stop()\<close> on the handler stored under \<open>cid\<close>: the stored handler is the
  object that \<open>stop\<close> mutates, also when \<open>stop\<close> throws half way.
\<close>

definition stopBridge :: "World \<Rightarrow> string \<Rightarrow> BridgeHandler \<Rightarrow> unit M" where
  "stopBridge w cid bridge = (\<lambda>s. case handler_stop w bridge s of
      (r, bridge', s') \<Rightarrow> (r, s'\<lparr>bridges := AList.update cid bridge' (bridges s')\<rparr>))"

definition disconnectConnection :: "World \<Rightarrow> string \<Rightarrow> unit M" where
  "disconnectConnection w cid = bindM (getConnection cid) (\<lambda>connection.
     if ci_status connection = DISCONNECTED then returnM ()
     else if ci_status connection = DISCONNECTING then returnM ()
     else tryCatch
       (bindM (updateConnectionStatus cid DISCONNECTING None) (\<lambda>_.
        bindM (getBridge cid) (\<lambda>bridge.
        bindM (case bridge of
                 Some b \<Rightarrow> bindM (stopBridge w cid b) (\<lambda>_. deleteBridge cid)
               | None \<Rightarrow> returnM ()) (\<lambda>_.
        bindM (updateConnectionStatus cid DISCONNECTED None) (\<lambda>_.
        updateConnectionTransport cid None)))))
       (\<lambda>error.
        bindM (updateConnectionStatus cid CONNECTION_ERROR (Some error)) (\<lambda>_.
        throwM (BridgeError CONNECTION_FAILED (Some error)))))"

text \<open>
  \<open>await server.transport.close()\<close>: \<open>close\<close> is \<open>stop\<close>, and the adapter it mutates is
  the one the instance holds.
\<close>

definition closeServerTransport :: "World \<Rightarrow> string \<Rightarrow> unit M" where
  "closeServerTransport w sid = bindM (getServer sid) (\<lambda>server.
     case si_transport server of
       Some adapter \<Rightarrow>
         bindM (adapter_stop w adapter) (\<lambda>adapter'.
         putServer sid (server\<lparr>si_transport := Some adapter'\<rparr>))
     | None \<Rightarrow> returnM ())"

definition stopServer :: "World \<Rightarrow> string \<Rightarrow> unit M" where
  "stopServer w sid = bindM (getServer sid) (\<lambda>server.
     if si_status server = STOPPED then returnM ()
     else if si_status server = STOPPING then returnM ()
     else tryCatch
       (bindM (updateServerStatus sid STOPPING None) (\<lambda>_.
        bindM (getConnectionsForServer sid) (\<lambda>connections.
        bindM (forEachM connections (\<lambda>connection.
                 tryCatch (disconnectConnection w (ci_id connection)) (\<lambda>error. returnM ()))) (\<lambda>_.
        bindM (closeServerTransport w sid) (\<lambda>_.
        bindM (getServer sid) (\<lambda>server'.
        bindM (case si_process server' of
                 Some process \<Rightarrow> killProcess w process
               | None \<Rightarrow> returnM ()) (\<lambda>_.
        bindM (updateServerStatus sid STOPPED None) (\<lambda>_.
        bindM (updateServerProcess sid None) (\<lambda>_.
        updateServerTransport sid None)))))))))
       (\<lambda>error.
        bindM (updateServerStatus sid SERVER_ERROR (Some error)) (\<lambda>_.
        throwM (BridgeError SERVER_STOP_FAILED (Some error)))))"

record ConnectOptions =
  o_endpoint :: "string option"
  o_res :: "nat option"
  o_environmentVariables :: "(string \<rightharpoonup> string) option"

definition opt_endpoint :: "ConnectOptions option \<Rightarrow> string option" where
  "opt_endpoint options = (case options of None \<Rightarrow> None | Some oo \<Rightarrow> o_endpoint oo)"

definition opt_res :: "ConnectOptions option \<Rightarrow> nat option" where
  "opt_res options = (case options of None \<Rightarrow> None | Some oo \<Rightarrow> o_res oo)"

definition opt_environmentVariables :: "ConnectOptions option \<Rightarrow> (string \<rightharpoonup> string) option" where
  "opt_environmentVariables options =
     (case options of None \<Rightarrow> None | Some oo \<Rightarrow> o_environmentVariables oo)"

text \<open>
  The transport combination dispatch of \<open>connectToServer\<close> (the \<open>if\<close> chain that
  builds \<open>bridgeHandler\<close>), in the order of the source.
\<close>

definition buildBridgeHandler ::
  "World \<Rightarrow> string \<Rightarrow> ConnectionConfig \<Rightarrow> ConnectOptions option \<Rightarrow> BridgeHandler M" where
  "buildBridgeHandler w cid connectionConfig options =
     bindM (getServer (cc_serverId connectionConfig)) (\<lambda>server.
     let clientTransport = cc_transport connectionConfig;
         serverTransport = sc_transport (si_config server)
     in
     if clientTransport = Stdio \<and> serverTransport = Sse then
       (if falsy (opt_endpoint options) \<or> opt_res options = None
        then throwM (BridgeError INVALID_CONFIGURATION None)
        else
          bindM (createServerAdapter Sse
                   \<lparr>so_config = si_config server, so_endpoint = opt_endpoint options,
                    so_res = opt_res options, so_otherTransport = None\<rparr>) (\<lambda>serverAdapter.
          bindM (createClientAdapter Stdio
                   \<lparr>co_serverProcess = si_process server, co_url = None,
                    co_otherTransport = None\<rparr>) (\<lambda>clientAdapter.
          returnM (createStdioToSSEHandler clientAdapter serverAdapter))))
     else if clientTransport = Sse \<and> serverTransport = Stdio then
       (if si_process server = None
        then throwM (BridgeError SERVER_NOT_FOUND None)
        else
          bindM (createServerAdapter Stdio
                   \<lparr>so_config = si_config server, so_endpoint = None, so_res = None,
                    so_otherTransport = None\<rparr>) (\<lambda>serverAdapter.
          let url = (case opt_endpoint options of
                       None \<Rightarrow> ''/''
                     | Some e \<Rightarrow> if e = [] then ''/'' else e)
          in if \<not> url_ok w url then throwM PlainError
             else
          bindM (createClientAdapter Sse
                   \<lparr>co_serverProcess = None, co_url = Some url,
                    co_otherTransport = None\<rparr>) (\<lambda>clientAdapter.
          returnM (createSSEToStdioHandler clientAdapter serverAdapter))))
     else if clientTransport = Memory \<and> serverTransport = Memory then
       bindM createLinkedInMemoryTransports (\<lambda>(clientMemory, serverMemory).
       bindM (createClientAdapter Memory
                \<lparr>co_serverProcess = None, co_url = None,
                 co_otherTransport = Some clientMemory\<rparr>) (\<lambda>clientAdapter.
       bindM (createServerAdapter Memory
                \<lparr>so_config = si_config server, so_endpoint = None, so_res = None,
                 so_otherTransport = Some serverMemory\<rparr>) (\<lambda>serverAdapter.
       returnM (createMemoryToMemoryHandler clientAdapter serverAdapter))))
     else if clientTransport = serverTransport then
       throwM (BridgeError INVALID_CONFIGURATION None)
     else
       throwM (BridgeError INVALID_CONFIGURATION None))"

definition connectToServer ::
  "World \<Rightarrow> ConnectionConfig \<Rightarrow> ConnectOptions option \<Rightarrow> string M" where
  "connectToServer w connectionConfig options =
     bindM (createConnection w connectionConfig) (\<lambda>connection.
     let cid = ci_id connection; serverId = cc_serverId connectionConfig in
     tryCatch
       (bindM (getServer serverId) (\<lambda>_.
        bindM (case opt_environmentVariables options of
                 Some environmentVariables \<Rightarrow>
                   bindM (ServerRegistry_updateServerEnvironment serverId environmentVariables)
                     (\<lambda>needsRestart.
                   bindM (getServer serverId) (\<lambda>server.
                   if needsRestart \<and> si_status server = RUNNING
                   then bindM (stopServer w serverId) (\<lambda>_. startServer w serverId)
                   else returnM ()))
               | None \<Rightarrow> returnM ()) (\<lambda>_.
        bindM (getServer serverId) (\<lambda>server.
        bindM (if si_status server \<noteq> RUNNING then startServer w serverId else returnM ()) (\<lambda>_.
        bindM (updateConnectionStatus cid CONNECTING None) (\<lambda>_.
        bindM (buildBridgeHandler w cid connectionConfig options) (\<lambda>bridgeHandler.
        bindM (handler_start w bridgeHandler) (\<lambda>started.
        bindM (setBridge cid started) (\<lambda>_.
        bindM (updateConnectionStatus cid CONNECTED None) (\<lambda>_.
        bindM (resetReconnectCount cid) (\<lambda>_.
        returnM cid)))))))))))
       (\<lambda>error.
        bindM (updateConnectionStatus cid CONNECTION_ERROR (Some error)) (\<lambda>_.
        bindM (tryCatch (removeConnection cid) (\<lambda>removeError. returnM ())) (\<lambda>_.
        throwM (BridgeError CONNECTION_FAILED (Some error))))))"

text \<open>\<open>BridgeManager.updateServerEnvironment\<close>: the hot swap.\<close>

definition BridgeManager_updateServerEnvironment ::
  "World \<Rightarrow> string \<Rightarrow> (string \<rightharpoonup> string) \<Rightarrow> unit M" where
  "BridgeManager_updateServerEnvironment w sid delta =
     bindM (ServerRegistry_updateServerEnvironment sid delta) (\<lambda>needsRestart.
     if needsRestart then
       bindM (getConnectionsForServer sid) (\<lambda>connections.
       let connectionConfigs = map ci_config connections in
       bindM (forEachM connections (\<lambda>connection.
                disconnectConnection w (ci_id connection))) (\<lambda>_.
       bindM (stopServer w sid) (\<lambda>_.
       bindM (startServer w sid) (\<lambda>_.
       forEachM connectionConfigs (\<lambda>config.
         bindM (connectToServer w config None) (\<lambda>_. returnM ()))))))
     else returnM ())"

section \<open>Events from outside\<close>

text \<open>
  The child process \<open>p\<close> dies on its own (a crash): its exit listeners run. A dead or
  unknown process emits nothing.
\<close>

definition processExit :: "nat \<Rightarrow> unit M" where
  "processExit p = (\<lambda>s. case procAt s p of
      None \<Rightarrow> (Returned (), s)
    | Some pr \<Rightarrow> if p_alive pr then emitExit p s else (Returned (), s))"

text \<open>
  The oldest pending \<open>setTimeout\<close> callback of the exit watcher fires:
  \<open>this.startServer(id).catch(...)\<close> logs a failure and goes on.
\<close>

definition fireTimer :: "World \<Rightarrow> unit M" where
  "fireTimer w = (\<lambda>s. case timers s of
      [] \<Rightarrow> (Returned (), s)
    | (delay, sid) # rest \<Rightarrow>
        tryCatch (startServer w sid) (\<lambda>error. returnM ()) (s\<lparr>timers := rest\<rparr>))"


section \<open>Observations, and the worlds and states used as examples\<close>

definition serverStatus :: "State \<Rightarrow> string \<Rightarrow> ServerStatus option" where
  "serverStatus s sid = map_option si_status (map_of (servers s) sid)"

definition transportOfServer :: "State \<Rightarrow> string \<Rightarrow> TransportType option" where
  "transportOfServer s sid = map_option (sc_transport \<circ> si_config) (map_of (servers s) sid)"

definition serverRestartCount :: "State \<Rightarrow> string \<Rightarrow> nat option" where
  "serverRestartCount s sid = map_option si_restartCount (map_of (servers s) sid)"

definition serverEnv :: "State \<Rightarrow> string \<Rightarrow> string \<Rightarrow> string option" where
  "serverEnv s sid k = (case map_of (servers s) sid of
      None \<Rightarrow> None
    | Some server \<Rightarrow> (case sc_env (si_config server) of None \<Rightarrow> None | Some e \<Rightarrow> e k))"

definition connectionStatus :: "State \<Rightarrow> string \<Rightarrow> ConnectionStatus option" where
  "connectionStatus s cid = map_option ci_status (map_of (connections s) cid)"

definition connectionError :: "State \<Rightarrow> string \<Rightarrow> err option" where
  "connectionError s cid = (case map_of (connections s) cid of
      None \<Rightarrow> None
    | Some connection \<Rightarrow> ci_error connection)"

text \<open>The adapter once \<open>stop()\<close> has returned.\<close>

definition stopped :: "Adapter \<Rightarrow> Adapter" where
  "stopped a = (if a_kind a = StdioServer
                then a\<lparr>a_transport := None, a_process := None\<rparr>
                else a\<lparr>a_transport := None\<rparr>)"


text \<open>A world in which every call into Node and the SDK succeeds.\<close>

definition allGood :: World where
  "allGood = \<lparr> io_ok = (\<lambda>_. True),
               randomUUID = (\<lambda>n. replicate (Suc n) (CHR ''u'')),
               url_ok = (\<lambda>_. True) \<rparr>"

definition emptyState :: State where
  "emptyState = \<lparr> servers = [], connections = [], bridges = [], procs = [], timers = [],
                  closedTransports = [], nextTransport = 0, io = 0, uuidCount = 0,
                  clock = 0 \<rparr>"

text \<open>
  A server \<open>S\<close> that restarts on a crash, at most \<open>n\<close> times, and a client \<open>B\<close> of it
  that leaves the choice of its connection id to the bridge.
\<close>

definition exampleServer :: "TransportType \<Rightarrow> int \<Rightarrow> ServerConfig" where
  "exampleServer t n =
     \<lparr> sc_id = Some ''S'', sc_name = ''srv'', sc_version = ''1'', sc_command = ''echo'',
       sc_args = None, sc_cwd = None, sc_env = None, sc_transport = t,
       sc_sseOptions = None, sc_autoRestart = Some True, sc_maxRestarts = Some n,
       sc_restartDelay = Some 10 \<rparr>"

definition exampleClient :: "TransportType \<Rightarrow> ConnectionConfig" where
  "exampleClient t =
     \<lparr> cc_id = None, cc_name = ''B'', cc_version = ''1'', cc_serverId = ''S'',
       cc_transport = t, cc_timeout = None, cc_reconnect = None, cc_maxReconnects = None,
       cc_reconnectDelay = None \<rparr>"

definition registered :: "TransportType \<Rightarrow> int \<Rightarrow> State" where
  "registered t n = snd (registerServer allGood (exampleServer t n) emptyState)"

definition started :: "TransportType \<Rightarrow> int \<Rightarrow> State" where
  "started t n = snd (startServer allGood ''S'' (registered t n))"

definition connected :: "TransportType \<Rightarrow> TransportType \<Rightarrow> State" where
  "connected ct st = snd (connectToServer allGood (exampleClient ct) None (started st 1))"

text \<open>The events of a list, one after the other, whatever each of them returns.\<close>

definition afterEvents :: "unit M list \<Rightarrow> State \<Rightarrow> State" where
  "afterEvents ms s = foldl (\<lambda>s' m. snd (m s')) s ms"


definition returnedValue :: "'a outcome \<Rightarrow> 'a option" where
  "returnedValue r = (case r of Returned x \<Rightarrow> Some x | Thrown e \<Rightarrow> None | Pending \<Rightarrow> None)"

text \<open>The instance that \<open>registerServer\<close> creates for \<open>exampleServer\<close>.\<close>

definition exampleInstance :: "TransportType \<Rightarrow> int \<Rightarrow> ServerInstance" where
  "exampleInstance t n =
     \<lparr> si_id = ''S'', si_config = exampleServer t n, si_status = STOPPED, si_process = None,
       si_transport = None, si_error = None, si_startTime = None, si_restartCount = 0 \<rparr>"

text \<open>A server config that leaves the choice of its id to the registry.\<close>

definition anonymousServer :: ServerConfig where
  "anonymousServer = (exampleServer Stdio 1)\<lparr>sc_id := None\<rparr>"

text \<open>The handler that connects the memory client \<open>B\<close> to the memory server \<open>S\<close>.\<close>

definition memoryBridge :: BridgeHandler where
  "memoryBridge =
     createMemoryToMemoryHandler
       ((newAdapter InMemory)\<lparr>a_transport := Some 1, a_otherTransport := Some 1\<rparr>)
       ((newAdapter InMemory)\<lparr>a_transport := Some 2, a_otherTransport := Some 2\<rparr>)"


section \<open>The crash loop\<close>

text \<open>
  One round of a server whose process always crashes: the process the instance holds
  dies, then the restart timer fires.
\<close>

definition crashAndRestart :: "World \<Rightarrow> string \<Rightarrow> State \<Rightarrow> State" where
  "crashAndRestart w sid s = (case map_of (servers s) sid of
      None \<Rightarrow> s
    | Some server \<Rightarrow> (case si_process server of
        None \<Rightarrow> s
      | Some p \<Rightarrow> snd (fireTimer w (snd (processExit p s)))))"

text \<open>
  The state between two rounds: the stdio server restarts on a crash, with no bound or
  a bound of at least one, it is Running with restart count 0 on a live process that only
  its own exit watcher listens on, and no timer is pending.
\<close>

definition crashLooping :: "string \<Rightarrow> State \<Rightarrow> bool" where
  "crashLooping sid s = (case map_of (servers s) sid of
      None \<Rightarrow> False
    | Some server \<Rightarrow>
        si_status server = RUNNING \<and> si_restartCount server = 0 \<and>
        sc_transport (si_config server) = Stdio \<and>
        sc_autoRestart (si_config server) = Some True \<and>
        (case sc_maxRestarts (si_config server) of None \<Rightarrow> True | Some m \<Rightarrow> 1 \<le> m) \<and>
        timers s = [] \<and>
        (case si_process server of
           None \<Rightarrow> False
         | Some p \<Rightarrow> (case procAt s p of
             None \<Rightarrow> False
           | Some pr \<Rightarrow> p_alive pr \<and> p_exitWatchers pr = [sid])))"


section \<open>Assertions about operations\<close>

text \<open>
  \<open>steady s s'\<close>: what no operation of the manager other than a connect undoes on the way
  from \<open>s\<close> to \<open>s'\<close>. A registered connection stays registered, a server keeps its
  transport (and no server appears or disappears), and a connection without a handler
  stays without one.
\<close>

definition steady :: "State \<Rightarrow> State \<Rightarrow> bool" where
  "steady s s' =
     ((\<forall>cid. map_of (connections s) cid \<noteq> None \<longrightarrow> map_of (connections s') cid \<noteq> None) \<and>
      (\<forall>sid. transportOfServer s' sid = transportOfServer s sid) \<and>
      (\<forall>cid. map_of (bridges s) cid = None \<longrightarrow> map_of (bridges s') cid = None))"

definition keeps :: "'a M \<Rightarrow> bool" where
  "keeps m = (\<forall>s. steady s (snd (m s)))"

text \<open>
  \<open>triple P m Q E\<close>: from a state with \<open>P\<close>, if \<open>m\<close> returns \<open>x\<close> then \<open>Q x\<close> holds
  afterwards, and if it throws \<open>e\<close> then \<open>E e\<close> holds afterwards.
\<close>

definition triple ::
  "(State \<Rightarrow> bool) \<Rightarrow> 'a M \<Rightarrow> ('a \<Rightarrow> State \<Rightarrow> bool) \<Rightarrow> (err \<Rightarrow> State \<Rightarrow> bool) \<Rightarrow> bool" where
  "triple P m Q E = (\<forall>s. P s \<longrightarrow> (case m s of
      (Returned x, s') \<Rightarrow> Q x s'
    | (Thrown e, s') \<Rightarrow> E e s'
    | (Pending, s') \<Rightarrow> True))"

text \<open>Every registered connection carries its own id in its config, as \<open>createConnection\<close> makes it.\<close>

definition connectionsNamed :: "State \<Rightarrow> bool" where
  "connectionsNamed s = (\<forall>(k, c) \<in> set (connections s). cc_id (ci_config c) = Some k)"


section \<open>The config argument of \<open>registerServer\<close> as an object\<close>

text \<open>
  JavaScript passes the config by reference, and \<open>{...config, id}\<close> makes a new object
  whose properties are those of \<open>config\<close>: a shallow copy, in which the nested objects
  (\<open>args\<close>, \<open>env\<close>, \<open>sseOptions\<close>) are the caller's own. To state which objects are
  new and which are shared, a config object is kept in a store: its scalar properties by
  value, its nested objects by reference. A reference to a config object is an index into
  \<open>configObjects\<close>; \<open>configOf\<close> gives, for a registered server, the reference that its
  instance holds in \<open>config\<close>.
\<close>

record ConfigObject =
  obj_id :: "string option"
  obj_name :: string
  obj_version :: string
  obj_command :: string
  obj_args :: "nat option"
  obj_cwd :: "string option"
  obj_env :: "nat option"
  obj_transport :: TransportType
  obj_sseOptions :: "nat option"
  obj_autoRestart :: "bool option"
  obj_maxRestarts :: "int option"
  obj_restartDelay :: "int option"

record Objects =
  configObjects :: "ConfigObject list"
  argsObjects :: "nat \<Rightarrow> string list"
  envObjects :: "nat \<Rightarrow> (string \<rightharpoonup> string)"
  sseObjects :: "nat \<Rightarrow> (nat option \<times> string option)"
  configOf :: "(string \<times> nat) list"

text \<open>The config that a config object denotes: its nested references followed.\<close>

definition readConfig :: "Objects \<Rightarrow> ConfigObject \<Rightarrow> ServerConfig" where
  "readConfig os obj =
     \<lparr> sc_id = obj_id obj, sc_name = obj_name obj, sc_version = obj_version obj,
       sc_command = obj_command obj,
       sc_args = map_option (argsObjects os) (obj_args obj),
       sc_cwd = obj_cwd obj,
       sc_env = map_option (envObjects os) (obj_env obj),
       sc_transport = obj_transport obj,
       sc_sseOptions = map_option (sseObjects os) (obj_sseOptions obj),
       sc_autoRestart = obj_autoRestart obj, sc_maxRestarts = obj_maxRestarts obj,
       sc_restartDelay = obj_restartDelay obj \<rparr>"

text \<open>
  \<open>ServerRegistry.registerServer\<close> on a reference: the result is the instance and the
  reference of the object it holds in \<open>config\<close>. A reference to no object is like
  \<open>undefined\<close>: reading \<open>config.id\<close> throws a TypeError.
\<close>

definition registerServerObject ::
  "World \<Rightarrow> nat \<Rightarrow> Objects \<times> State
     \<Rightarrow> (ServerInstance \<times> nat) outcome \<times> (Objects \<times> State)" where
  "registerServerObject w ref = (\<lambda>(os, s).
     if length (configObjects os) \<le> ref then (Thrown PlainError, (os, s))
     else
       let config = configObjects os ! ref;
           (sid, s1) = (case obj_id config of
                          Some i \<Rightarrow> (i, s)
                        | None \<Rightarrow> (randomUUID w (uuidCount s),
                                   s\<lparr>uuidCount := Suc (uuidCount s)\<rparr>))
       in if map_of (servers s1) sid \<noteq> None
          then (Thrown (BridgeError SERVER_ALREADY_EXISTS None), (os, s1))
          else
            let copy = config\<lparr>obj_id := Some sid\<rparr>;
                cref = length (configObjects os);
                os1 = os\<lparr>configObjects := configObjects os @ [copy],
                         configOf := AList.update sid cref (configOf os)\<rparr>;
                server = \<lparr> si_id = sid,
                           si_config = readConfig os1 copy,
                           si_status = STOPPED,
                           si_process = None,
                           si_transport = None,
                           si_error = None,
                           si_startTime = None,
                           si_restartCount = 0 \<rparr>
            in (Returned (server, cref),
                (os1, s1\<lparr>servers := AList.update sid server (servers s1)\<rparr>)))"

text \<open>
  No id that \<open>randomUUID\<close> has yet to return is registered. With a \<open>randomUUID\<close> that
  never repeats itself this is what makes a generated id a fresh one.
\<close>

definition uuidsAhead :: "World \<Rightarrow> State \<Rightarrow> bool" where
  "uuidsAhead w s = (\<forall>n. uuidCount s \<le> n \<longrightarrow> map_of (servers s) (randomUUID w n) = None)"

text \<open>
  A caller's config object without an id, whose env is the object 7, alone in the store;
  and the config it denotes.
\<close>

definition anonymousObject :: ConfigObject where
  "anonymousObject =
     \<lparr> obj_id = None, obj_name = ''srv'', obj_version = ''1'', obj_command = ''echo'',
       obj_args = None, obj_cwd = None, obj_env = Some 7, obj_transport = Stdio,
       obj_sseOptions = None, obj_autoRestart = Some True, obj_maxRestarts = Some 1,
       obj_restartDelay = Some 10 \<rparr>"

definition exampleObjects :: Objects where
  "exampleObjects =
     \<lparr> configObjects = [anonymousObject], argsObjects = (\<lambda>_. []),
       envObjects = (\<lambda>_. [''A'' \<mapsto> ''1'']), sseObjects = (\<lambda>_. (None, None)),
       configOf = [] \<rparr>"

definition anonymousConfig :: ServerConfig where
  "anonymousConfig = readConfig exampleObjects anonymousObject"

section \<open>Basic facts\<close>

lemmas monad_defs = returnM_def throwM_def bindM_def tryCatch_def extCall_def

lemmas registry_defs = getServer_def putServer_def updateServerStatus_def
  updateServerProcess_def updateServerTransport_def incrementRestartCount_def
  resetRestartCount_def shouldRestartServer_def getServerRestartDelay_def
  ServerRegistry_updateServerEnvironment_def

lemmas connection_defs = getConnection_def putConnection_def updateConnectionStatus_def
  updateConnectionTransport_def resetReconnectCount_def removeConnection_def
  getAllConnections_def getConnectionsForServer_def

lemma map_of_update_same: "map_of (AList.update k v al) k = Some v"
  by (simp add: update_conv')

lemma mergeEnv_apply:
  "mergeEnv old delta k =
     (case delta k of
        Some v \<Rightarrow> Some v
      | None \<Rightarrow> (case old of None \<Rightarrow> None | Some e \<Rightarrow> e k))"
  by (auto simp: mergeEnv_def map_add_def split: option.splits)

lemma adapter_stop_ok:
  "a_transport a = Some t \<Longrightarrow> io_ok w (io s) \<Longrightarrow>
   adapter_stop w a s =
     (Returned (stopped a), s\<lparr>io := Suc (io s), closedTransports := closedTransports s @ [t]\<rparr>)"
  by (auto simp: adapter_stop_def transport_close_def monad_defs stopped_def)

section \<open>Steady operations\<close>

lemma steady_refl [simp]: "steady s s"
  by (simp add: steady_def)

lemma steady_trans: "steady s s' \<Longrightarrow> steady s' s'' \<Longrightarrow> steady s s''"
  by (simp add: steady_def)

lemma steady_untouched:
  "servers s' = servers s \<Longrightarrow> connections s' = connections s \<Longrightarrow> bridges s' = bridges s
   \<Longrightarrow> steady s s'"
  by (simp add: steady_def transportOfServer_def)

lemma keepsI: "(\<And>s. steady s (snd (m s))) \<Longrightarrow> keeps m"
  by (simp add: keeps_def)

lemma keepsD: "keeps m \<Longrightarrow> m s = (r, s') \<Longrightarrow> steady s s'"
  by (auto simp: keeps_def dest: spec [where x = s])

lemma keeps_returnM [simp]: "keeps (returnM x)"
  by (simp add: keeps_def returnM_def)

lemma keeps_throwM [simp]: "keeps (throwM e)"
  by (simp add: keeps_def throwM_def)

lemma keeps_bindM:
  assumes "keeps m" and "\<And>x. keeps (f x)"
  shows "keeps (bindM m f)"
proof (rule keepsI)
  fix s
  obtain r s1 where ms: "m s = (r, s1)" by (cases "m s")
  have first: "steady s s1" using keepsD [OF assms(1) ms] .
  show "steady s (snd (bindM m f s))"
  proof (cases r)
    case (Returned x)
    obtain r2 s2 where fs: "f x s1 = (r2, s2)" by (cases "f x s1")
    have "steady s1 s2" using keepsD [OF assms(2) fs] .
    with first have "steady s s2" by (rule steady_trans)
    then show ?thesis using ms Returned fs by (simp add: bindM_def)
  qed (use first ms in \<open>simp_all add: bindM_def\<close>)
qed

lemma keeps_tryCatch:
  assumes "keeps m" and "\<And>e. keeps (h e)"
  shows "keeps (tryCatch m h)"
proof (rule keepsI)
  fix s
  obtain r s1 where ms: "m s = (r, s1)" by (cases "m s")
  have first: "steady s s1" using keepsD [OF assms(1) ms] .
  show "steady s (snd (tryCatch m h s))"
  proof (cases r)
    case (Thrown e)
    obtain r2 s2 where hs: "h e s1 = (r2, s2)" by (cases "h e s1")
    have "steady s1 s2" using keepsD [OF assms(2) hs] .
    with first have "steady s s2" by (rule steady_trans)
    then show ?thesis using ms Thrown hs by (simp add: tryCatch_def)
  qed (use first ms in \<open>simp_all add: tryCatch_def\<close>)
qed

lemma keeps_forEachM:
  assumes "\<And>x. x \<in> set xs \<Longrightarrow> keeps (f x)"
  shows "keeps (forEachM xs f)"
  using assms
proof (induction xs)
  case Nil
  show ?case by (simp add: keeps_def)
next
  case (Cons x xs)
  have head: "keeps (f x)" and tail: "keeps (forEachM xs f)"
    using Cons by simp_all
  show ?case
  proof (rule keepsI)
    fix s
    obtain r s1 where fs: "f x s = (r, s1)" by (cases "f x s")
    have first: "steady s s1" using keepsD [OF head fs] .
    show "steady s (snd (forEachM (x # xs) f s))"
    proof (cases r)
      case (Returned u)
      obtain r2 s2 where rest: "forEachM xs f s1 = (r2, s2)" by (cases "forEachM xs f s1")
      have "steady s1 s2" using keepsD [OF tail rest] .
      with first have "steady s s2" by (rule steady_trans)
      then show ?thesis using fs Returned rest by simp
    qed (use first fs in simp_all)
  qed
qed

lemma keeps_if: "(c \<Longrightarrow> keeps a) \<Longrightarrow> (\<not> c \<Longrightarrow> keeps b) \<Longrightarrow> keeps (if c then a else b)"
  by simp

lemma keeps_case_option:
  "(x = None \<Longrightarrow> keeps a) \<Longrightarrow> (\<And>y. x = Some y \<Longrightarrow> keeps (b y))
   \<Longrightarrow> keeps (case x of None \<Rightarrow> a | Some y \<Rightarrow> b y)"
  by (cases x) simp_all

lemma keeps_untouched:
  "(\<And>s. servers (snd (m s)) = servers s \<and> connections (snd (m s)) = connections s
          \<and> bridges (snd (m s)) = bridges s) \<Longrightarrow> keeps m"
  by (rule keepsI) (simp add: steady_untouched)

subsection \<open>The registries\<close>

lemma keeps_getServer [simp]: "keeps (getServer sid)"
  by (rule keeps_untouched) (simp add: getServer_def split: option.splits)

lemma transportOfServer_update:
  "map_of (servers s) sid = Some server \<Longrightarrow>
   sc_transport (si_config server') = sc_transport (si_config server) \<Longrightarrow>
   transportOfServer (s\<lparr>servers := AList.update sid server' (servers s)\<rparr>) sid' =
   transportOfServer s sid'"
  by (simp add: transportOfServer_def update_conv')

lemma steady_putServer:
  "map_of (servers s) sid = Some server \<Longrightarrow>
   sc_transport (si_config server') = sc_transport (si_config server) \<Longrightarrow>
   steady s (s\<lparr>servers := AList.update sid server' (servers s)\<rparr>)"
  by (simp add: steady_def transportOfServer_update)

lemma keeps_updateServerStatus [simp]: "keeps (updateServerStatus sid status error)"
  by (rule keepsI)
     (auto simp: updateServerStatus_def getServer_def putServer_def monad_defs
        intro!: steady_putServer split: option.splits)

lemma keeps_updateServerProcess [simp]: "keeps (updateServerProcess sid process)"
  by (rule keepsI)
     (auto simp: updateServerProcess_def getServer_def putServer_def monad_defs
        intro!: steady_putServer split: option.splits)

lemma keeps_updateServerTransport [simp]: "keeps (updateServerTransport sid transport)"
  by (rule keepsI)
     (auto simp: updateServerTransport_def getServer_def putServer_def monad_defs
        intro!: steady_putServer split: option.splits)

lemma keeps_incrementRestartCount [simp]: "keeps (incrementRestartCount sid)"
  by (rule keepsI)
     (auto simp: incrementRestartCount_def getServer_def putServer_def monad_defs
        intro!: steady_putServer split: option.splits)

lemma keeps_resetRestartCount [simp]: "keeps (resetRestartCount sid)"
  by (rule keepsI)
     (auto simp: resetRestartCount_def getServer_def putServer_def monad_defs
        intro!: steady_putServer split: option.splits)

lemma keeps_shouldRestartServer [simp]: "keeps (shouldRestartServer sid)"
  by (rule keeps_untouched)
     (auto simp: shouldRestartServer_def getServer_def monad_defs split: option.splits)

lemma keeps_getServerRestartDelay [simp]: "keeps (getServerRestartDelay sid)"
  by (rule keeps_untouched)
     (auto simp: getServerRestartDelay_def getServer_def monad_defs split: option.splits)

lemma keeps_ServerRegistry_updateServerEnvironment [simp]:
  "keeps (ServerRegistry_updateServerEnvironment sid delta)"
  by (rule keepsI)
     (auto simp: ServerRegistry_updateServerEnvironment_def getServer_def putServer_def
        monad_defs intro!: steady_putServer split: option.splits)

lemma steady_putConnection:
  "steady s (s\<lparr>connections := AList.update cid connection (connections s)\<rparr>)"
  by (simp add: steady_def transportOfServer_def update_conv')

lemma keeps_getConnection [simp]: "keeps (getConnection cid)"
  by (rule keeps_untouched) (simp add: getConnection_def split: option.splits)

lemma keeps_updateConnectionStatus [simp]: "keeps (updateConnectionStatus cid status error)"
  by (rule keepsI)
     (auto simp: updateConnectionStatus_def getConnection_def putConnection_def monad_defs
        intro!: steady_putConnection split: option.splits)

lemma keeps_updateConnectionTransport [simp]: "keeps (updateConnectionTransport cid transport)"
  by (rule keepsI)
     (auto simp: updateConnectionTransport_def getConnection_def putConnection_def monad_defs
        intro!: steady_putConnection split: option.splits)

lemma keeps_resetReconnectCount [simp]: "keeps (resetReconnectCount cid)"
  by (rule keepsI)
     (auto simp: resetReconnectCount_def getConnection_def putConnection_def monad_defs
        intro!: steady_putConnection split: option.splits)

lemma keeps_getConnectionsForServer [simp]: "keeps (getConnectionsForServer sid)"
  by (rule keeps_untouched)
     (simp add: getConnectionsForServer_def getAllConnections_def monad_defs)

lemma keeps_createConnection [simp]: "keeps (createConnection w config)"
  by (rule keepsI)
     (auto simp: createConnection_def Let_def steady_def transportOfServer_def update_conv'
        split: option.splits)


subsection \<open>Adapters, handlers and processes\<close>

lemma keeps_extCall [simp]: "keeps (extCall w)"
  by (rule keeps_untouched) (simp add: extCall_def)

lemma keeps_newTransport [simp]: "keeps newTransport"
  by (rule keeps_untouched) (simp add: newTransport_def)

lemma keeps_transport_start [simp]: "keeps (transport_start w t)"
  by (simp add: transport_start_def keeps_bindM)

lemma keeps_transport_close [simp]: "keeps (transport_close w t)"
  unfolding transport_close_def
  by (intro keeps_bindM keeps_if keeps_extCall keeps_throwM keeps_untouched) simp

lemma keeps_spawnProcess [simp]: "keeps (spawnProcess w)"
  unfolding spawnProcess_def
  by (intro keeps_bindM keeps_if keeps_extCall keeps_throwM keeps_untouched) simp

lemma keeps_on_exit [simp]: "keeps (on_exit p sid)"
  by (rule keeps_untouched) (simp add: on_exit_def split: option.splits)

lemma keeps_createClientAdapter [simp]: "keeps (createClientAdapter t options)"
  by (simp add: createClientAdapter_def split: TransportType.splits)

lemma keeps_createServerAdapter [simp]: "keeps (createServerAdapter t options)"
  by (simp add: createServerAdapter_def split: TransportType.splits)

lemma keeps_createLinkedInMemoryTransports [simp]: "keeps createLinkedInMemoryTransports"
  by (simp add: createLinkedInMemoryTransports_def keeps_bindM)

lemma keeps_adapter_start [simp]: "keeps (adapter_start w a)"
  unfolding adapter_start_def
  by (intro keeps_if keeps_tryCatch keeps_returnM keeps_throwM)
     (auto intro!: keeps_bindM split: AdapterKind.splits option.splits)

lemma keeps_adapter_stop [simp]: "keeps (adapter_stop w a)"
  unfolding adapter_stop_def
  by (auto intro!: keeps_bindM split: option.splits)

lemma keeps_handler_start [simp]: "keeps (handler_start w h)"
  unfolding handler_start_def
  by (auto intro!: keeps_bindM split: option.splits)

lemma adapter_stop_untouched:
  "adapter_stop w a s = (r, s') \<Longrightarrow>
   servers s' = servers s \<and> connections s' = connections s \<and> bridges s' = bridges s"
  by (auto simp: adapter_stop_def transport_close_def monad_defs
      split: option.splits if_splits)

lemma stopAdapterField_untouched:
  "stopAdapterField w field s = (r, field', s') \<Longrightarrow>
   servers s' = servers s \<and> connections s' = connections s \<and> bridges s' = bridges s"
  by (auto simp: stopAdapterField_def split: option.splits prod.splits outcome.splits
      dest: adapter_stop_untouched)

lemma handler_stop_untouched:
  "handler_stop w h s = (r, h', s') \<Longrightarrow>
   servers s' = servers s \<and> connections s' = connections s \<and> bridges s' = bridges s"
  by (auto simp: handler_stop_def split: prod.splits outcome.splits
      dest!: stopAdapterField_untouched)

lemma keeps_exitWatcher [simp]: "keeps (exitWatcher sid)"
  unfolding exitWatcher_def
  by (intro keeps_bindM keeps_if keeps_returnM keeps_updateServerStatus
        keeps_shouldRestartServer keeps_incrementRestartCount keeps_getServerRestartDelay
        keeps_untouched) simp

lemma keeps_emitExit [simp]: "keeps (emitExit p)"
proof (rule keepsI)
  fix s
  show "steady s (snd (emitExit p s))"
  proof (cases "procAt s p")
    case None
    then show ?thesis by (simp add: emitExit_def)
  next
    case (Some pr)
    let ?s1 = "s\<lparr>procs := (procs s)[p := pr\<lparr>p_alive := False\<rparr>]\<rparr>"
    have "steady s ?s1" by (simp add: steady_untouched)
    moreover have "keeps (forEachM (p_exitWatchers pr) exitWatcher)"
      by (rule keeps_forEachM) simp
    then have "steady ?s1 (snd (forEachM (p_exitWatchers pr) exitWatcher ?s1))"
      by (simp add: keeps_def)
    ultimately show ?thesis using Some by (auto simp: emitExit_def intro: steady_trans)
  qed
qed

lemma keeps_processExit [simp]: "keeps (processExit p)"
proof (rule keepsI)
  fix s
  show "steady s (snd (processExit p s))"
    using keeps_emitExit [of p]
    by (auto simp: processExit_def keeps_def split: option.splits)
qed

lemma keeps_killProcess [simp]: "keeps (killProcess w p)"
proof (rule keepsI)
  fix s
  have inner: "keeps (bindM (extCall w) (\<lambda>ok.
               if ok then (\<lambda>s1. case emitExit p s1 of
                                   (Returned _, s2) \<Rightarrow> (Returned (), s2)
                                 | (_, s2) \<Rightarrow> (Pending, s2))
               else throwM PlainError))"
  proof (intro keeps_bindM keeps_if keeps_extCall keeps_throwM keepsI)
    fix s1
    show "steady s1 (snd (case emitExit p s1 of
                                   (Returned _, s2) \<Rightarrow> (Returned (), s2)
                                 | (_, s2) \<Rightarrow> (Pending, s2)))"
      using keeps_emitExit [of p]
      by (auto simp: keeps_def split: prod.splits outcome.splits
          dest!: spec [where x = s1])
  qed
  show "steady s (snd (killProcess w p s))"
    using inner by (auto simp: killProcess_def keeps_def split: option.splits)
qed


subsection \<open>The manager\<close>

lemma keeps_startServer [simp]: "keeps (startServer w sid)"
  unfolding startServer_def
  by (intro keeps_bindM keeps_if keeps_tryCatch keeps_case_option keeps_returnM keeps_throwM
        keeps_getServer keeps_updateServerStatus keeps_createServerAdapter keeps_adapter_start
        keeps_updateServerProcess keeps_on_exit keeps_updateServerTransport
        keeps_resetRestartCount)

lemma keeps_getBridge [simp]: "keeps (getBridge cid)"
  by (rule keeps_untouched) (simp add: getBridge_def)

lemma keeps_deleteBridge [simp]: "keeps (deleteBridge cid)"
  by (rule keepsI) (simp add: deleteBridge_def steady_def transportOfServer_def delete_conv')

text \<open>Stopping the handler of a connection, when there is one, and forgetting it.\<close>

lemma keeps_stop_stored_bridge:
  "keeps (bindM (getBridge cid) (\<lambda>bridge.
          bindM (case bridge of
                   Some b \<Rightarrow> bindM (stopBridge w cid b) (\<lambda>_. deleteBridge cid)
                 | None \<Rightarrow> returnM ()) f))"
  if "\<And>x. keeps (f x)"
proof (rule keepsI)
  fix s
  show "steady s (snd (bindM (getBridge cid) (\<lambda>bridge.
          bindM (case bridge of
                   Some b \<Rightarrow> bindM (stopBridge w cid b) (\<lambda>_. deleteBridge cid)
                 | None \<Rightarrow> returnM ()) f) s))"
  proof (cases "map_of (bridges s) cid")
    case None
    have "keeps (bindM (returnM ()) f)" by (intro keeps_bindM keeps_returnM that)
    then show ?thesis using None by (simp add: getBridge_def bindM_def keeps_def returnM_def)
  next
    case (Some b)
    obtain r b' s1 where stop: "handler_stop w b s = (r, b', s1)"
      by (cases "handler_stop w b s") auto
    let ?s2 = "s1\<lparr>bridges := AList.update cid b' (bridges s1)\<rparr>"
    from handler_stop_untouched [OF stop]
    have same: "servers s1 = servers s" "connections s1 = connections s"
      "bridges s1 = bridges s" by simp_all
    have step: "steady s ?s2"
      using same Some by (auto simp: steady_def transportOfServer_def update_conv')
    have rest: "keeps (bindM (deleteBridge cid) f)"
      by (intro keeps_bindM keeps_deleteBridge that)
    show ?thesis
    proof (cases r)
      case (Returned u)
      have "steady ?s2 (snd (bindM (deleteBridge cid) f ?s2))"
        using rest by (simp add: keeps_def)
      with step have "steady s (snd (bindM (deleteBridge cid) f ?s2))" by (rule steady_trans)
      then show ?thesis
        using Some stop Returned
        by (simp add: getBridge_def stopBridge_def bindM_def deleteBridge_def)
    qed (use Some stop step in \<open>simp_all add: getBridge_def stopBridge_def bindM_def\<close>)
  qed
qed

lemma keeps_disconnectConnection [simp]: "keeps (disconnectConnection w cid)"
  unfolding disconnectConnection_def
  by (intro keeps_bindM keeps_if keeps_tryCatch keeps_returnM keeps_throwM
        keeps_getConnection keeps_updateConnectionStatus keeps_stop_stored_bridge
        keeps_updateConnectionTransport)

lemma keeps_closeServerTransport [simp]: "keeps (closeServerTransport w sid)"
proof (rule keepsI)
  fix s
  show "steady s (snd (closeServerTransport w sid s))"
  proof (cases "map_of (servers s) sid")
    case None
    then show ?thesis by (simp add: closeServerTransport_def getServer_def bindM_def)
  next
    case (Some server)
    show ?thesis
    proof (cases "si_transport server")
      case None
      then show ?thesis
        using Some by (simp add: closeServerTransport_def getServer_def bindM_def returnM_def)
    next
      case (Some adapter)
      obtain r s1 where stop: "adapter_stop w adapter s = (r, s1)"
        by (cases "adapter_stop w adapter s")
      from adapter_stop_untouched [OF stop]
      have same: "servers s1 = servers s" "connections s1 = connections s"
        "bridges s1 = bridges s" by simp_all
      then have first: "steady s s1" by (simp add: steady_untouched)
      show ?thesis
      proof (cases r)
        case (Returned adapter')
        have "steady s1 (s1\<lparr>servers := AList.update sid
                 (server\<lparr>si_transport := Some adapter'\<rparr>) (servers s1)\<rparr>)"
          using \<open>map_of (servers s) sid = Some server\<close> same
          by (intro steady_putServer [where server = server]) simp_all
        with first have "steady s (s1\<lparr>servers := AList.update sid
                 (server\<lparr>si_transport := Some adapter'\<rparr>) (servers s1)\<rparr>)"
          by (rule steady_trans)
        then show ?thesis
          using \<open>map_of (servers s) sid = Some server\<close> Some stop Returned
          by (simp add: closeServerTransport_def getServer_def bindM_def putServer_def)
      qed (use \<open>map_of (servers s) sid = Some server\<close> Some stop first in
            \<open>simp_all add: closeServerTransport_def getServer_def bindM_def\<close>)
    qed
  qed
qed

lemma keeps_stopServer [simp]: "keeps (stopServer w sid)"
  unfolding stopServer_def
  by (intro keeps_bindM keeps_if keeps_tryCatch keeps_case_option keeps_forEachM
        keeps_returnM keeps_throwM keeps_getServer keeps_updateServerStatus
        keeps_getConnectionsForServer keeps_disconnectConnection keeps_closeServerTransport
        keeps_killProcess keeps_updateServerProcess keeps_updateServerTransport)

lemma keeps_buildBridgeHandler [simp]: "keeps (buildBridgeHandler w cid cc options)"
  unfolding buildBridgeHandler_def Let_def
  by (intro keeps_bindM keeps_if keeps_returnM keeps_throwM keeps_getServer
        keeps_createServerAdapter keeps_createClientAdapter
        keeps_createLinkedInMemoryTransports)
     (auto intro!: keeps_bindM split: prod.splits)


section \<open>Triples\<close>

lemma tripleI:
  "(\<And>s. P s \<Longrightarrow> (case m s of
      (Returned x, s') \<Rightarrow> Q x s' | (Thrown e, s') \<Rightarrow> E e s' | (Pending, s') \<Rightarrow> True))
   \<Longrightarrow> triple P m Q E"
  by (simp add: triple_def)

lemma tripleD:
  "triple P m Q E \<Longrightarrow> P s \<Longrightarrow> (case m s of
      (Returned x, s') \<Rightarrow> Q x s' | (Thrown e, s') \<Rightarrow> E e s' | (Pending, s') \<Rightarrow> True)"
  by (simp add: triple_def)

lemma triple_Returned: "triple P m Q E \<Longrightarrow> P s \<Longrightarrow> m s = (Returned x, s') \<Longrightarrow> Q x s'"
  by (auto simp: triple_def dest!: spec [where x = s])

lemma triple_Thrown: "triple P m Q E \<Longrightarrow> P s \<Longrightarrow> m s = (Thrown e, s') \<Longrightarrow> E e s'"
  by (auto simp: triple_def dest!: spec [where x = s])

lemma bindM_Returned_eq: "m s = (Returned x, s1) \<Longrightarrow> bindM m f s = f x s1"
  by (simp add: bindM_def)

lemma triple_returnM: "(\<And>s. P s \<Longrightarrow> Q x s) \<Longrightarrow> triple P (returnM x) Q E"
  by (simp add: triple_def returnM_def)


lemma triple_False [simp]: "triple (\<lambda>_. False) m Q E"
  by (simp add: triple_def)


lemma triple_bindM:
  assumes "triple P m R E" and "\<And>x. triple (R x) (f x) Q E"
  shows "triple P (bindM m f) Q E"
proof (rule tripleI)
  fix s assume P: "P s"
  obtain r s1 where ms: "m s = (r, s1)" by (cases "m s")
  show "case bindM m f s of
      (Returned x, s') \<Rightarrow> Q x s' | (Thrown e, s') \<Rightarrow> E e s' | (Pending, s') \<Rightarrow> True"
  proof (cases r)
    case (Returned x)
    with assms(1) P ms have "R x s1" by (auto dest: triple_Returned)
    with assms(2) [of x] show ?thesis
      using ms Returned by (auto simp: bindM_def triple_def dest!: spec [where x = s1])
  next
    case (Thrown e)
    with assms(1) P ms have "E e s1" by (auto dest: triple_Thrown)
    then show ?thesis using ms Thrown by (simp add: bindM_def)
  next
    case Pending
    then show ?thesis using ms by (simp add: bindM_def)
  qed
qed

lemma triple_tryCatch:
  assumes "triple P m Q R" and "\<And>e. triple (R e) (h e) Q E"
  shows "triple P (tryCatch m h) Q E"
proof (rule tripleI)
  fix s assume P: "P s"
  obtain r s1 where ms: "m s = (r, s1)" by (cases "m s")
  show "case tryCatch m h s of
      (Returned x, s') \<Rightarrow> Q x s' | (Thrown e, s') \<Rightarrow> E e s' | (Pending, s') \<Rightarrow> True"
  proof (cases r)
    case (Returned x)
    with assms(1) P ms have "Q x s1" by (auto dest: triple_Returned)
    then show ?thesis using ms Returned by (simp add: tryCatch_def)
  next
    case (Thrown e)
    with assms(1) P ms have "R e s1" by (auto dest: triple_Thrown)
    with assms(2) [of e] show ?thesis
      using ms Thrown by (auto simp: tryCatch_def triple_def dest!: spec [where x = s1])
  next
    case Pending
    then show ?thesis using ms by (simp add: tryCatch_def)
  qed
qed

lemma triple_weaken:
  assumes "triple P' m Q' E'"
    and "\<And>s. P s \<Longrightarrow> P' s" and "\<And>x s. Q' x s \<Longrightarrow> Q x s" and "\<And>e s. E' e s \<Longrightarrow> E e s"
  shows "triple P m Q E"
  using assms unfolding triple_def
  by (auto split: prod.splits outcome.splits) (metis (mono_tags) old.prod.case outcome.simps(8,9))+

text \<open>A steady operation preserves whatever steady steps preserve.\<close>

lemma triple_keeps:
  assumes "keeps m" and "\<And>s s'. I s \<Longrightarrow> steady s s' \<Longrightarrow> I s'" and "\<And>e s. I s \<Longrightarrow> E e s"
  shows "triple I m (\<lambda>_. I) E"
proof (rule tripleI)
  fix s assume I: "I s"
  obtain r s1 where ms: "m s = (r, s1)" by (cases "m s")
  from keepsD [OF assms(1) ms] I have "I s1" by (rule assms(2) [rotated])
  then show "case m s of
      (Returned x, s') \<Rightarrow> I s' | (Thrown e, s') \<Rightarrow> E e s' | (Pending, s') \<Rightarrow> True"
    using ms assms(3) by (cases r) simp_all
qed


section \<open>Connecting in any state\<close>


lemma keeps_connect_environment:
  "keeps (case opt_environmentVariables options of
            Some environmentVariables \<Rightarrow>
              bindM (ServerRegistry_updateServerEnvironment serverId environmentVariables)
                (\<lambda>needsRestart.
              bindM (getServer serverId) (\<lambda>server.
              if needsRestart \<and> si_status server = RUNNING
              then bindM (stopServer w serverId) (\<lambda>_. startServer w serverId)
              else returnM ()))
          | None \<Rightarrow> returnM ())"
  by (intro keeps_case_option keeps_bindM keeps_if keeps_returnM keeps_getServer
        keeps_ServerRegistry_updateServerEnvironment keeps_stopServer keeps_startServer)






section \<open>A failed connect, in any state\<close>

lemma triple_reserved:
  "keeps m \<Longrightarrow>
   triple (\<lambda>s'. map_of (connections s') cid \<noteq> None \<and> map_of (bridges s') cid = None) m
          (\<lambda>_ s'. map_of (connections s') cid \<noteq> None \<and> map_of (bridges s') cid = None)
          (\<lambda>_ s'. map_of (connections s') cid \<noteq> None \<and> map_of (bridges s') cid = None)"
  by (rule triple_keeps) (simp_all add: steady_def)

lemma connect_tail:
  "triple (\<lambda>s'. map_of (connections s') cid \<noteq> None \<and> map_of (bridges s') cid = None)
     (bindM (setBridge cid h) (\<lambda>_.
      bindM (updateConnectionStatus cid CONNECTED None) (\<lambda>_.
      bindM (resetReconnectCount cid) (\<lambda>_.
      returnM cid))))
     (\<lambda>r s'. r = cid \<and> connectionStatus s' cid = Some CONNECTED \<and>
              map_of (bridges s') cid \<noteq> None)
     E"
  by (rule tripleI)
     (auto simp: setBridge_def connection_defs monad_defs connectionStatus_def
        map_of_update_same)

lemma connect_catch:
  "triple (\<lambda>s'. map_of (connections s') cid \<noteq> None \<and> map_of (bridges s') cid = None)
     (bindM (updateConnectionStatus cid CONNECTION_ERROR (Some error)) (\<lambda>_.
      bindM (tryCatch (removeConnection cid) (\<lambda>removeError. returnM ())) (\<lambda>_.
      throwM (BridgeError CONNECTION_FAILED (Some error)))))
     Q
     (\<lambda>e s'. e = BridgeError CONNECTION_FAILED (Some error) \<and>
              connectionError s' cid = Some error \<and>
              connectionStatus s' cid = Some CONNECTION_ERROR \<and>
              map_of (bridges s') cid = None)"
  by (rule tripleI)
     (auto simp: connection_defs monad_defs connectionStatus_def connectionError_def
        map_of_update_same)

lemma connectToServer_outcome:
  assumes "map_of (connections s) cid = None" and "map_of (bridges s) cid = None"
    and "cid = (case cc_id cc of Some i \<Rightarrow> i | None \<Rightarrow> randomUUID w (uuidCount s))"
  shows "case connectToServer w cc options s of
      (Returned r, s') \<Rightarrow>
         r = cid \<and> connectionStatus s' cid = Some CONNECTED \<and> map_of (bridges s') cid \<noteq> None
    | (Thrown e, s') \<Rightarrow>
         (\<exists>c. e = BridgeError CONNECTION_FAILED (Some c) \<and> connectionError s' cid = Some c) \<and>
         connectionStatus s' cid = Some CONNECTION_ERROR \<and> map_of (bridges s') cid = None
    | (Pending, s') \<Rightarrow> True"
proof -
  let ?I = "\<lambda>s'. map_of (connections s') cid \<noteq> None \<and> map_of (bridges s') cid = None"
  let ?Q = "\<lambda>r s'. r = cid \<and> connectionStatus s' cid = Some CONNECTED \<and>
              map_of (bridges s') cid \<noteq> None"
  let ?E = "\<lambda>e s'. (\<exists>c. e = BridgeError CONNECTION_FAILED (Some c) \<and>
                         connectionError s' cid = Some c) \<and>
              connectionStatus s' cid = Some CONNECTION_ERROR \<and> map_of (bridges s') cid = None"
  note step = triple_reserved [where cid = cid]
  obtain connection s1 where
    reserve: "createConnection w cc s = (Returned connection, s1)" and
    cid: "ci_id connection = cid" and I: "?I s1"
    using assms
    by (cases "cc_id cc") (auto simp: createConnection_def Let_def map_of_update_same)
  define attempt where "attempt =
     tryCatch
       (bindM (getServer (cc_serverId cc)) (\<lambda>_.
        bindM (case opt_environmentVariables options of
                 Some environmentVariables \<Rightarrow>
                   bindM (ServerRegistry_updateServerEnvironment (cc_serverId cc)
                            environmentVariables)
                     (\<lambda>needsRestart.
                   bindM (getServer (cc_serverId cc)) (\<lambda>server.
                   if needsRestart \<and> si_status server = RUNNING
                   then bindM (stopServer w (cc_serverId cc)) (\<lambda>_.
                          startServer w (cc_serverId cc))
                   else returnM ()))
               | None \<Rightarrow> returnM ()) (\<lambda>_.
        bindM (getServer (cc_serverId cc)) (\<lambda>server.
        bindM (if si_status server \<noteq> RUNNING then startServer w (cc_serverId cc)
               else returnM ()) (\<lambda>_.
        bindM (updateConnectionStatus cid CONNECTING None) (\<lambda>_.
        bindM (buildBridgeHandler w cid cc options) (\<lambda>bridgeHandler.
        bindM (handler_start w bridgeHandler) (\<lambda>h.
        bindM (setBridge cid h) (\<lambda>_.
        bindM (updateConnectionStatus cid CONNECTED None) (\<lambda>_.
        bindM (resetReconnectCount cid) (\<lambda>_.
        returnM cid)))))))))))
       (\<lambda>error.
        bindM (updateConnectionStatus cid CONNECTION_ERROR (Some error)) (\<lambda>_.
        bindM (tryCatch (removeConnection cid) (\<lambda>removeError. returnM ())) (\<lambda>_.
        throwM (BridgeError CONNECTION_FAILED (Some error)))))"
  have "triple ?I attempt ?Q ?E"
    unfolding attempt_def
    apply (rule triple_tryCatch [where R = "\<lambda>_. ?I"])
     apply (rule triple_bindM [OF step], simp)
     apply (rule triple_bindM [OF step], rule keeps_connect_environment)
     apply (rule triple_bindM [OF step], simp)
     apply (rule triple_bindM [OF step], simp)
     apply (rule triple_bindM [OF step], simp)
     apply (rule triple_bindM [OF step], simp)
     apply (rule triple_bindM [OF step], simp)
     apply (rule connect_tail)
    apply (rule triple_weaken [OF connect_catch])
      apply auto
    done
  from tripleD [OF this I] have "case attempt s1 of
      (Returned r, s') \<Rightarrow> ?Q r s' | (Thrown e, s') \<Rightarrow> ?E e s' | (Pending, s') \<Rightarrow> True" .
  moreover have "connectToServer w cc options s = attempt s1"
    unfolding connectToServer_def attempt_def
    by (simp only: bindM_Returned_eq [where m = "createConnection w cc" and s = s, OF reserve]
          Let_def cid)
  ultimately show ?thesis by simp
qed


section \<open>The hot swap, in any state\<close>

lemma connectToServer_taken:
  "cc_id cc = Some k \<Longrightarrow> map_of (connections s) k \<noteq> None \<Longrightarrow>
   connectToServer w cc options s = (Thrown (BridgeError CONNECTION_ALREADY_EXISTS None), s)"
  by (auto simp: connectToServer_def createConnection_def bindM_def)

lemma triple_present:
  "keeps m \<Longrightarrow>
   triple (\<lambda>s'. map_of (connections s') k \<noteq> None) m
          (\<lambda>_ s'. map_of (connections s') k \<noteq> None) (\<lambda>_ _. True)"
  by (rule triple_keeps) (simp_all add: steady_def)

lemma hot_swap_never_returns:
  assumes running: "serverStatus s sid = Some RUNNING"
    and named: "connectionsNamed s"
    and member: "(k, c) \<in> set (connections s)"
    and target: "cc_serverId (ci_config c) = sid"
  shows "fst (BridgeManager_updateServerEnvironment w sid delta s) \<noteq> Returned ()"
proof -
  from running obtain s1 where
    merge: "ServerRegistry_updateServerEnvironment sid delta s = (Returned True, s1)" and
    same: "connections s1 = connections s"
    by (auto simp: serverStatus_def registry_defs monad_defs)
  define cs where
    "cs = filter (\<lambda>connection. cc_serverId (ci_config connection) = sid) (map snd (connections s))"
  have list: "getConnectionsForServer sid s1 = (Returned cs, s1)"
    by (simp add: cs_def getConnectionsForServer_def getAllConnections_def monad_defs same)
  from member target have "c \<in> set cs"
    by (force simp: cs_def)
  then obtain c1 rest where cs: "cs = c1 # rest"
    by (cases cs) auto
  then have "c1 \<in> set cs" by simp
  then obtain k1 where k1: "(k1, c1) \<in> set (connections s)"
    by (auto simp: cs_def)
  with named have id: "cc_id (ci_config c1) = Some k1"
    by (auto simp: connectionsNamed_def)
  from k1 have present: "map_of (connections s1) k1 \<noteq> None"
    unfolding same by (metis map_of_eq_None_iff image_eqI fst_conv)
  note step = triple_present [where k = k1]
  have reconnect:
    "triple (\<lambda>s'. map_of (connections s') k1 \<noteq> None)
       (forEachM (map ci_config cs) (\<lambda>config.
          bindM (connectToServer w config None) (\<lambda>_. returnM ())))
       (\<lambda>_ _. False) (\<lambda>_ _. True)"
    by (rule tripleI) (simp add: cs id connectToServer_taken bindM_def)
  have "triple (\<lambda>s'. map_of (connections s') k1 \<noteq> None)
     (bindM (forEachM cs (\<lambda>connection. disconnectConnection w (ci_id connection))) (\<lambda>_.
      bindM (stopServer w sid) (\<lambda>_.
      bindM (startServer w sid) (\<lambda>_.
      forEachM (map ci_config cs) (\<lambda>config.
        bindM (connectToServer w config None) (\<lambda>_. returnM ()))))))
     (\<lambda>_ _. False) (\<lambda>_ _. True)"
    apply (rule triple_bindM [OF step], rule keeps_forEachM, simp)
    apply (rule triple_bindM [OF step], simp)
    apply (rule triple_bindM [OF step], simp)
    apply (rule reconnect)
    done
  from tripleD [OF this present]
  have "fst ((bindM (forEachM cs (\<lambda>connection. disconnectConnection w (ci_id connection))) (\<lambda>_.
      bindM (stopServer w sid) (\<lambda>_.
      bindM (startServer w sid) (\<lambda>_.
      forEachM (map ci_config cs) (\<lambda>config.
        bindM (connectToServer w config None) (\<lambda>_. returnM ())))))) s1) \<noteq> Returned ()"
    by (auto split: prod.splits outcome.splits)
  moreover have "BridgeManager_updateServerEnvironment w sid delta s =
     (bindM (forEachM cs (\<lambda>connection. disconnectConnection w (ci_id connection))) (\<lambda>_.
      bindM (stopServer w sid) (\<lambda>_.
      bindM (startServer w sid) (\<lambda>_.
      forEachM (map ci_config cs) (\<lambda>config.
        bindM (connectToServer w config None) (\<lambda>_. returnM ())))))) s1"
    unfolding BridgeManager_updateServerEnvironment_def
    by (simp only: bindM_Returned_eq
          [where m = "ServerRegistry_updateServerEnvironment sid delta" and s = s, OF merge]
          bindM_Returned_eq [where m = "getConnectionsForServer sid" and s = s1, OF list]
          Let_def if_True)
  ultimately show ?thesis by simp
qed

section \<open>The crash loop, for any number of rounds\<close>

lemma crash_round:
  assumes ok: "\<forall>n. io_ok w n" and loop: "crashLooping sid s"
  shows "crashLooping sid (crashAndRestart w sid s) \<and>
         length (procs (crashAndRestart w sid s)) = Suc (length (procs s))"
proof -
  from loop obtain server p pr where
    server: "map_of (servers s) sid = Some server" and
    facts: "si_status server = RUNNING" "si_restartCount server = 0"
      "sc_transport (si_config server) = Stdio"
      "sc_autoRestart (si_config server) = Some True"
      "case sc_maxRestarts (si_config server) of None \<Rightarrow> True | Some m \<Rightarrow> 1 \<le> m"
      "timers s = []" and
    p: "si_process server = Some p" "procAt s p = Some pr" "p_alive pr" "p_exitWatchers pr = [sid]"
    by (auto simp: crashLooping_def split: option.splits)
  from p(2) have plen: "p < length (procs s)" and pr: "procs s ! p = pr"
    by (auto simp: procAt_def split: if_splits)
  show ?thesis
    using ok server facts p plen pr
    by (auto simp: crashLooping_def crashAndRestart_def processExit_def emitExit_def
          exitWatcher_def fireTimer_def startServer_def registry_defs monad_defs
          createServerAdapter_def adapter_start_def spawnProcess_def newTransport_def
          transport_start_def newAdapter_def getStdioProcess_def on_exit_def procAt_def
          map_of_update_same nth_append split: option.splits)
qed

lemma crash_rounds:
  assumes ok: "\<forall>n. io_ok w n" and loop: "crashLooping sid s"
  shows "crashLooping sid ((crashAndRestart w sid ^^ k) s) \<and>
         length (procs ((crashAndRestart w sid ^^ k) s)) = length (procs s) + k"
proof (induction k)
  case 0
  show ?case using loop by simp
next
  case (Suc k)
  with crash_round [OF ok, of sid "(crashAndRestart w sid ^^ k) s"]
  show ?case by simp
qed

lemma exitWatcher_any_status:
  assumes "map_of (servers s) sid = Some server"
    and "sc_autoRestart (si_config server) = Some True"
    and "case sc_maxRestarts (si_config server) of
           None \<Rightarrow> True | Some m \<Rightarrow> int (si_restartCount server) < m"
  shows "fst (exitWatcher sid s) = Returned () \<and>
         timers (snd (exitWatcher sid s)) =
           timers s @ [(case sc_restartDelay (si_config server) of
                          None \<Rightarrow> 1000 | Some d \<Rightarrow> d, sid)] \<and>
         serverRestartCount (snd (exitWatcher sid s)) sid = Some (Suc (si_restartCount server))"
  using assms
  by (auto simp: exitWatcher_def registry_defs monad_defs serverRestartCount_def
        map_of_update_same split: option.splits)

section \<open>The general lemmas at the example states\<close>

lemma hot_swap_never_returns_example:
  "serverStatus (connected Memory Memory) ''S'' = Some RUNNING \<and>
   connectionsNamed (connected Memory Memory) \<and>
   map fst (connections (connected Memory Memory)) = [''u''] \<and>
   fst (BridgeManager_updateServerEnvironment allGood ''S'' [''X'' \<mapsto> ''1'']
          (connected Memory Memory)) \<noteq> Returned ()"
proof -
  have running: "serverStatus (connected Memory Memory) ''S'' = Some RUNNING"
    and named: "connectionsNamed (connected Memory Memory)"
    and keys: "map fst (connections (connected Memory Memory)) = [''u'']"
    and target: "map (cc_serverId \<circ> ci_config \<circ> snd) (connections (connected Memory Memory))
                   = [''S'']"
    by code_simp+
  from keys target obtain c where
    "(''u'', c) \<in> set (connections (connected Memory Memory))"
    "cc_serverId (ci_config c) = ''S''"
    by (cases "connections (connected Memory Memory)") auto
  from hot_swap_never_returns [OF running named this] running named keys
  show ?thesis by simp
qed

lemma crash_rounds_example:
  "crashLooping ''S'' (started Stdio 1) \<and>
   crashLooping ''S'' ((crashAndRestart allGood ''S'' ^^ 100) (started Stdio 1)) \<and>
   length (procs ((crashAndRestart allGood ''S'' ^^ 100) (started Stdio 1))) = 101"
proof -
  have loop: "crashLooping ''S'' (started Stdio 1)"
    and one: "length (procs (started Stdio 1)) = 1"
    by code_simp+
  have ok: "\<forall>n. io_ok allGood n"
    by (simp add: allGood_def)
  from crash_rounds [OF ok loop, of 100] loop one show ?thesis by simp
qed

lemma connectToServer_outcome_example:
  "map_of (connections (started Stdio 1)) ''u'' = None \<and>
   map_of (bridges (started Stdio 1)) ''u'' = None \<and>
   (case connectToServer allGood (exampleClient Stdio) None (started Stdio 1) of
      (Returned r, s') \<Rightarrow> True
    | (Thrown e, s') \<Rightarrow>
        connectionStatus s' ''u'' = Some CONNECTION_ERROR \<and> map_of (bridges s') ''u'' = None
    | (Pending, s') \<Rightarrow> True)"
proof -
  have unused: "map_of (connections (started Stdio 1)) ''u'' = None"
    and unbridged: "map_of (bridges (started Stdio 1)) ''u'' = None"
    and uuid: "randomUUID allGood (uuidCount (started Stdio 1)) = ''u''"
    by code_simp+
  have id: "''u'' = (case cc_id (exampleClient Stdio) of
                       Some i \<Rightarrow> i
                     | None \<Rightarrow> randomUUID allGood (uuidCount (started Stdio 1)))"
    by (simp add: exampleClient_def uuid)
  from connectToServer_outcome [OF unused unbridged id, of None] unused unbridged
  show ?thesis by (auto split: prod.splits outcome.splits)
qed

section \<open>Registration\<close>

lemma registerServer_outcome:
  "case registerServer w config s of
     (Returned server, s') \<Rightarrow>
        si_status server = STOPPED \<and> si_restartCount server = 0 \<and>
        si_process server = None \<and> si_transport server = None \<and>
        si_error server = None \<and> si_startTime server = None \<and>
        si_config server = config\<lparr>sc_id := Some (si_id server)\<rparr> \<and>
        (sc_id config = None \<longrightarrow> si_id server = randomUUID w (uuidCount s)) \<and>
        (\<forall>i. sc_id config = Some i \<longrightarrow> si_id server = i) \<and>
        map_of (servers s) (si_id server) = None \<and>
        map_of (servers s') (si_id server) = Some server \<and>
        s' = s\<lparr>uuidCount := (if sc_id config = None then Suc (uuidCount s) else uuidCount s),
               servers := AList.update (si_id server) server (servers s)\<rparr>
   | (Thrown e, s') \<Rightarrow>
        e = BridgeError SERVER_ALREADY_EXISTS None \<and>
        map_of (servers s)
          (case sc_id config of Some i \<Rightarrow> i | None \<Rightarrow> randomUUID w (uuidCount s)) \<noteq> None \<and>
        s' = s\<lparr>uuidCount := (if sc_id config = None then Suc (uuidCount s) else uuidCount s)\<rparr>
   | (Pending, s') \<Rightarrow> False"
  by (cases "sc_id config") (auto simp: registerServer_def Let_def map_of_update_same)

lemma registerServer_fresh:
  assumes "sc_id config = None" and "inj (randomUUID w)" and "uuidsAhead w s"
  shows "\<exists>server s'. registerServer w config s = (Returned server, s') \<and> uuidsAhead w s'"
proof -
  from assms(3) have free: "map_of (servers s) (randomUUID w (uuidCount s)) = None"
    by (simp add: uuidsAhead_def)
  have later: "map_of (servers s) (randomUUID w n) = None"
    "randomUUID w n \<noteq> randomUUID w (uuidCount s)" if "Suc (uuidCount s) \<le> n" for n
    using that assms(3) injD [OF assms(2), of n "uuidCount s"]
    by (auto simp: uuidsAhead_def)
  show ?thesis
    using assms(1) free later
    by (simp add: registerServer_def Let_def uuidsAhead_def update_conv')
qed

lemma registerServerObject_outcome:
  assumes "ref < length (configObjects os)"
    and "readConfig os (configObjects os ! ref) = config"
  shows "case registerServerObject w ref (os, s) of
      (Returned (server, cref), (os', s')) \<Rightarrow>
         registerServer w config s = (Returned server, s') \<and>
         cref = length (configObjects os) \<and> cref \<noteq> ref \<and>
         configObjects os' =
           configObjects os @ [(configObjects os ! ref)\<lparr>obj_id := Some (si_id server)\<rparr>] \<and>
         configObjects os' ! ref = configObjects os ! ref \<and>
         readConfig os' (configObjects os' ! cref) = si_config server \<and>
         map_of (configOf os') (si_id server) = Some cref \<and>
         argsObjects os' = argsObjects os \<and> envObjects os' = envObjects os \<and>
         sseObjects os' = sseObjects os \<and>
            obj_args (configObjects os' ! cref) = obj_args (configObjects os ! ref) \<and>
            obj_env (configObjects os' ! cref) = obj_env (configObjects os ! ref) \<and>
            obj_sseOptions (configObjects os' ! cref) = obj_sseOptions (configObjects os ! ref) \<and>
            (\<forall>obj. readConfig (os'\<lparr>configObjects := (configObjects os')[ref := obj]\<rparr>)
                     ((configObjects os')[ref := obj] ! cref) = si_config server) \<and>
            (\<forall>e env'. obj_env (configObjects os ! ref) = Some e \<longrightarrow>
               sc_env (readConfig (os'\<lparr>envObjects := (envObjects os')(e := env')\<rparr>)
                        (configObjects os' ! cref)) = Some env')
    | (Thrown e, (os', s')) \<Rightarrow> registerServer w config s = (Thrown e, s') \<and> os' = os
    | (Pending, (os', s')) \<Rightarrow> False"
  using assms
  by (cases "obj_id (configObjects os ! ref)")
     (auto simp: registerServerObject_def registerServer_def Let_def readConfig_def
        map_of_update_same nth_append nth_list_update)

lemma randomUUID_allGood_inj: "inj (randomUUID allGood)"
proof (rule injI)
  fix m n
  assume "randomUUID allGood m = randomUUID allGood n"
  then have "length (replicate (Suc m) (CHR ''u'')) = length (replicate (Suc n) (CHR ''u''))"
    by (simp add: allGood_def)
  then show "m = n" by simp
qed

lemma uuidsAhead_registered: "uuidsAhead allGood (registered Stdio 1)"
  by (simp add: uuidsAhead_def registered_def registerServer_def exampleServer_def
        emptyState_def allGood_def Let_def)

section \<open>The claims\<close>

text \<open>
  C10. \<open>registerServer\<close> never hangs and throws only SERVER_ALREADY_EXISTS, when the id
  (the given one, or the next value of \<open>randomUUID\<close> when \<open>config.id\<close> is absent) is
  taken, leaving the registry as it was. Otherwise it returns an instance that is Stopped,
  has restart count 0 and no process, transport, error or start time, whose config is the
  caller's config with \<open>id\<close> set to the instance id; that id was not registered before
  and now maps to the instance, and nothing else of the state changes but that one value
  of \<open>randomUUID\<close> is used up when the id was absent.

  A generated id is fresh and unique: when \<open>randomUUID\<close> never repeats itself and none
  of the values it has yet to return is registered, a registration without id succeeds,
  the same holds afterwards, and the next registration without id succeeds with another
  id.

  The config is copied, not aliased: for a caller's config object at \<open>ref\<close>, the instance
  holds a new object, at a reference that was not in use and differs from \<open>ref\<close>; the
  caller's object is as before (its \<open>id\<close> is not set); the new object has the caller's
  properties with \<open>id\<close> set, and a later write to a property of the caller's object
  does not reach the instance's config. The copy is shallow: its \<open>args\<close>, \<open>env\<close> and
  \<open>sseOptions\<close> are the caller's objects, which registration does not change, so a later
  write into the caller's \<open>env\<close> object shows in the instance's config.
\<close>

theorem registerServer_instance:
  "(case registerServer w config s of
     (Returned server, s') \<Rightarrow>
        si_status server = STOPPED \<and> si_restartCount server = 0 \<and>
        si_process server = None \<and> si_transport server = None \<and>
        si_error server = None \<and> si_startTime server = None \<and>
        si_config server = config\<lparr>sc_id := Some (si_id server)\<rparr> \<and>
        (sc_id config = None \<longrightarrow> si_id server = randomUUID w (uuidCount s)) \<and>
        (\<forall>i. sc_id config = Some i \<longrightarrow> si_id server = i) \<and>
        map_of (servers s) (si_id server) = None \<and>
        map_of (servers s') (si_id server) = Some server \<and>
        s' = s\<lparr>uuidCount := (if sc_id config = None then Suc (uuidCount s) else uuidCount s),
               servers := AList.update (si_id server) server (servers s)\<rparr>
   | (Thrown e, s') \<Rightarrow>
        e = BridgeError SERVER_ALREADY_EXISTS None \<and>
        map_of (servers s)
          (case sc_id config of Some i \<Rightarrow> i | None \<Rightarrow> randomUUID w (uuidCount s)) \<noteq> None \<and>
        s' = s\<lparr>uuidCount := (if sc_id config = None then Suc (uuidCount s) else uuidCount s)\<rparr>
   | (Pending, s') \<Rightarrow> False) \<and>
   (sc_id config = None \<and> inj (randomUUID w) \<and> uuidsAhead w s \<longrightarrow>
      (\<exists>server s'. registerServer w config s = (Returned server, s') \<and> uuidsAhead w s' \<and>
         (\<forall>config'. sc_id config' = None \<longrightarrow>
            (\<exists>server' s''. registerServer w config' s' = (Returned server', s'') \<and>
               si_id server' \<noteq> si_id server)))) \<and>
   (\<forall>os ref. ref < length (configObjects os) \<and> readConfig os (configObjects os ! ref) = config
      \<longrightarrow> (case registerServerObject w ref (os, s) of
         (Returned (server, cref), (os', s')) \<Rightarrow>
            registerServer w config s = (Returned server, s') \<and>
            cref = length (configObjects os) \<and> cref \<noteq> ref \<and>
            configObjects os' =
              configObjects os @ [(configObjects os ! ref)\<lparr>obj_id := Some (si_id server)\<rparr>] \<and>
            configObjects os' ! ref = configObjects os ! ref \<and>
            readConfig os' (configObjects os' ! cref) = si_config server \<and>
            map_of (configOf os') (si_id server) = Some cref \<and>
            argsObjects os' = argsObjects os \<and> envObjects os' = envObjects os \<and>
            sseObjects os' = sseObjects os \<and>
            obj_args (configObjects os' ! cref) = obj_args (configObjects os ! ref) \<and>
            obj_env (configObjects os' ! cref) = obj_env (configObjects os ! ref) \<and>
            obj_sseOptions (configObjects os' ! cref) = obj_sseOptions (configObjects os ! ref) \<and>
            (\<forall>obj. readConfig (os'\<lparr>configObjects := (configObjects os')[ref := obj]\<rparr>)
                     ((configObjects os')[ref := obj] ! cref) = si_config server) \<and>
            (\<forall>e env'. obj_env (configObjects os ! ref) = Some e \<longrightarrow>
               sc_env (readConfig (os'\<lparr>envObjects := (envObjects os')(e := env')\<rparr>)
                        (configObjects os' ! cref)) = Some env')
       | (Thrown e, (os', s')) \<Rightarrow> registerServer w config s = (Thrown e, s') \<and> os' = os
       | (Pending, (os', s')) \<Rightarrow> False))"
proof (intro conjI allI impI)
  show "case registerServer w config s of
     (Returned server, s') \<Rightarrow>
        si_status server = STOPPED \<and> si_restartCount server = 0 \<and>
        si_process server = None \<and> si_transport server = None \<and>
        si_error server = None \<and> si_startTime server = None \<and>
        si_config server = config\<lparr>sc_id := Some (si_id server)\<rparr> \<and>
        (sc_id config = None \<longrightarrow> si_id server = randomUUID w (uuidCount s)) \<and>
        (\<forall>i. sc_id config = Some i \<longrightarrow> si_id server = i) \<and>
        map_of (servers s) (si_id server) = None \<and>
        map_of (servers s') (si_id server) = Some server \<and>
        s' = s\<lparr>uuidCount := (if sc_id config = None then Suc (uuidCount s) else uuidCount s),
               servers := AList.update (si_id server) server (servers s)\<rparr>
   | (Thrown e, s') \<Rightarrow>
        e = BridgeError SERVER_ALREADY_EXISTS None \<and>
        map_of (servers s)
          (case sc_id config of Some i \<Rightarrow> i | None \<Rightarrow> randomUUID w (uuidCount s)) \<noteq> None \<and>
        s' = s\<lparr>uuidCount := (if sc_id config = None then Suc (uuidCount s) else uuidCount s)\<rparr>
   | (Pending, s') \<Rightarrow> False"
    by (rule registerServer_outcome)
next
  assume fresh: "sc_id config = None \<and> inj (randomUUID w) \<and> uuidsAhead w s"
  then obtain server s' where
    first: "registerServer w config s = (Returned server, s')" and ahead: "uuidsAhead w s'"
    using registerServer_fresh [where config = config and w = w and s = s] by auto
  from registerServer_outcome [where w = w and config = config and s = s] first
  have registered: "map_of (servers s') (si_id server) = Some server"
    by (simp add: map_of_update_same)
  have "\<exists>server' s''. registerServer w config' s' = (Returned server', s'') \<and>
          si_id server' \<noteq> si_id server" if "sc_id config' = None" for config'
  proof -
    from registerServer_fresh [OF that _ ahead] fresh obtain server' s'' where
      second: "registerServer w config' s' = (Returned server', s'')" by auto
    from registerServer_outcome [where w = w and config = config' and s = s'] second
    have "map_of (servers s') (si_id server') = None" by simp
    with registered have "si_id server' \<noteq> si_id server" by auto
    with second show ?thesis by auto
  qed
  with first ahead
  show "\<exists>server s'. registerServer w config s = (Returned server, s') \<and> uuidsAhead w s' \<and>
         (\<forall>config'. sc_id config' = None \<longrightarrow>
            (\<exists>server' s''. registerServer w config' s' = (Returned server', s'') \<and>
               si_id server' \<noteq> si_id server))"
    by auto
next
  fix os ref
  assume "ref < length (configObjects os) \<and> readConfig os (configObjects os ! ref) = config"
  then show "case registerServerObject w ref (os, s) of
         (Returned (server, cref), (os', s')) \<Rightarrow>
            registerServer w config s = (Returned server, s') \<and>
            cref = length (configObjects os) \<and> cref \<noteq> ref \<and>
            configObjects os' =
              configObjects os @ [(configObjects os ! ref)\<lparr>obj_id := Some (si_id server)\<rparr>] \<and>
            configObjects os' ! ref = configObjects os ! ref \<and>
            readConfig os' (configObjects os' ! cref) = si_config server \<and>
            map_of (configOf os') (si_id server) = Some cref \<and>
            argsObjects os' = argsObjects os \<and> envObjects os' = envObjects os \<and>
            sseObjects os' = sseObjects os \<and>
            obj_args (configObjects os' ! cref) = obj_args (configObjects os ! ref) \<and>
            obj_env (configObjects os' ! cref) = obj_env (configObjects os ! ref) \<and>
            obj_sseOptions (configObjects os' ! cref) = obj_sseOptions (configObjects os ! ref) \<and>
            (\<forall>obj. readConfig (os'\<lparr>configObjects := (configObjects os')[ref := obj]\<rparr>)
                     ((configObjects os')[ref := obj] ! cref) = si_config server) \<and>
            (\<forall>e env'. obj_env (configObjects os ! ref) = Some e \<longrightarrow>
               sc_env (readConfig (os'\<lparr>envObjects := (envObjects os')(e := env')\<rparr>)
                        (configObjects os' ! cref)) = Some env')
       | (Thrown e, (os', s')) \<Rightarrow> registerServer w config s = (Thrown e, s') \<and> os' = os
       | (Pending, (os', s')) \<Rightarrow> False"
    using registerServerObject_outcome [where ref = ref and os = os and config = config and w = w and s = s] by simp
qed

theorem registerServer_instance_witness:
  "sc_id anonymousConfig = None \<and>
   inj (randomUUID allGood) \<and>
   uuidsAhead allGood (registered Stdio 1) \<and>
   map fst (servers (registered Stdio 1)) = [''S''] \<and>
   map_option si_id
     (returnedValue (fst (registerServer allGood anonymousConfig (registered Stdio 1))))
     = Some ''u'' \<and>
   map_option si_status
     (returnedValue (fst (registerServer allGood anonymousConfig (registered Stdio 1))))
     = Some STOPPED \<and>
   map_option si_restartCount
     (returnedValue (fst (registerServer allGood anonymousConfig (registered Stdio 1))))
     = Some 0 \<and>
   map_option (sc_id \<circ> si_config)
     (returnedValue (fst (registerServer allGood anonymousConfig (registered Stdio 1))))
     = Some (Some ''u'') \<and>
   uuidCount (snd (registerServer allGood anonymousConfig (registered Stdio 1))) = 1 \<and>
   map_option si_id
     (returnedValue (fst (registerServer allGood anonymousConfig
        (snd (registerServer allGood anonymousConfig (registered Stdio 1))))))
     = Some ''uu'' \<and>
   map_option snd
     (returnedValue (fst (registerServerObject allGood 0 (exampleObjects, registered Stdio 1))))
     = Some 1 \<and>
   map obj_id (configObjects
     (fst (snd (registerServerObject allGood 0 (exampleObjects, registered Stdio 1)))))
     = [None, Some ''u''] \<and>
   map obj_env (configObjects
     (fst (snd (registerServerObject allGood 0 (exampleObjects, registered Stdio 1)))))
     = [Some 7, Some 7]"
proof -
  have anonymous: "sc_id anonymousConfig = None"
    by (simp add: anonymousConfig_def readConfig_def anonymousObject_def)
  have evaluated:
    "map fst (servers (registered Stdio 1)) = [''S'']"
    "map_option si_id
       (returnedValue (fst (registerServer allGood anonymousConfig (registered Stdio 1))))
       = Some ''u''"
    "map_option si_status
       (returnedValue (fst (registerServer allGood anonymousConfig (registered Stdio 1))))
       = Some STOPPED"
    "map_option si_restartCount
       (returnedValue (fst (registerServer allGood anonymousConfig (registered Stdio 1))))
       = Some 0"
    "map_option (sc_id \<circ> si_config)
       (returnedValue (fst (registerServer allGood anonymousConfig (registered Stdio 1))))
       = Some (Some ''u'')"
    "uuidCount (snd (registerServer allGood anonymousConfig (registered Stdio 1))) = 1"
    "map_option si_id
       (returnedValue (fst (registerServer allGood anonymousConfig
          (snd (registerServer allGood anonymousConfig (registered Stdio 1))))))
       = Some ''uu''"
    "map_option snd
       (returnedValue (fst (registerServerObject allGood 0 (exampleObjects, registered Stdio 1))))
       = Some 1"
    "map obj_id (configObjects
       (fst (snd (registerServerObject allGood 0 (exampleObjects, registered Stdio 1)))))
       = [None, Some ''u'']"
    "map obj_env (configObjects
       (fst (snd (registerServerObject allGood 0 (exampleObjects, registered Stdio 1)))))
       = [Some 7, Some 7]"
    by code_simp+
  show ?thesis
    using registerServer_instance
            [where w = allGood and config = anonymousConfig and s = "registered Stdio 1"]
          anonymous randomUUID_allGood_inj uuidsAhead_registered evaluated
    by simp
qed

text \<open>
  C9. \<open>startServer\<close> on a server that is Running or Starting, and \<open>stopServer\<close> on a
  server that is Stopped or Stopping, return at once and leave the whole state, hence the
  instance, as it was.
\<close>

theorem start_stop_idempotent:
  "(serverStatus s sid = Some RUNNING \<or> serverStatus s sid = Some STARTING
      \<longrightarrow> startServer w sid s = (Returned (), s)) \<and>
   (serverStatus s sid = Some STOPPED \<or> serverStatus s sid = Some STOPPING
      \<longrightarrow> stopServer w sid s = (Returned (), s))"
  by (auto simp: serverStatus_def startServer_def stopServer_def getServer_def monad_defs)

theorem start_stop_idempotent_witness:
  "serverStatus (started Stdio 1) ''S'' = Some RUNNING \<and>
   startServer allGood ''S'' (started Stdio 1) = (Returned (), started Stdio 1) \<and>
   serverStatus (registered Stdio 1) ''S'' = Some STOPPED \<and>
   stopServer allGood ''S'' (registered Stdio 1) = (Returned (), registered Stdio 1)"
proof -
  have running: "serverStatus (started Stdio 1) ''S'' = Some RUNNING"
    by code_simp
  have stopped: "serverStatus (registered Stdio 1) ''S'' = Some STOPPED"
    by code_simp
  show ?thesis
    using start_stop_idempotent [of "started Stdio 1" "''S''" allGood]
          start_stop_idempotent [of "registered Stdio 1" "''S''" allGood]
          running stopped
    by simp
qed

text \<open>
  C7. For a registered server, the registry's \<open>updateServerEnvironment\<close> reports that a
  restart is needed exactly when the server is Running. When it is not Running, the
  manager's \<open>updateServerEnvironment\<close> returns with one change to the state: the server's
  \<open>config.env\<close> is the old one overridden by the delta (status, process, transport and
  restart count of the instance, the connections, the processes and the timers are as
  before). In the merged env a key of the delta has the delta's value and any other key
  keeps its old value.
\<close>

theorem updateEnvironment_not_running:
  assumes "map_of (servers s) sid = Some server"
  shows "fst (ServerRegistry_updateServerEnvironment sid delta s)
           = Returned (si_status server = RUNNING) \<and>
    (si_status server \<noteq> RUNNING \<longrightarrow>
       BridgeManager_updateServerEnvironment w sid delta s =
         (Returned (),
          s\<lparr>servers := AList.update sid
               (server\<lparr>si_config := (si_config server)
                  \<lparr>sc_env := Some (mergeEnv (sc_env (si_config server)) delta)\<rparr>\<rparr>)
               (servers s)\<rparr>)) \<and>
    (\<forall>k. mergeEnv (sc_env (si_config server)) delta k =
         (case delta k of
            Some v \<Rightarrow> Some v
          | None \<Rightarrow> (case sc_env (si_config server) of None \<Rightarrow> None | Some e \<Rightarrow> e k)))"
  using assms
  by (auto simp: BridgeManager_updateServerEnvironment_def registry_defs monad_defs
        mergeEnv_apply)

theorem updateEnvironment_not_running_witness:
  "map_of (servers (registered Stdio 1)) ''S'' = Some (exampleInstance Stdio 1) \<and>
   si_status (exampleInstance Stdio 1) \<noteq> RUNNING \<and>
   fst (ServerRegistry_updateServerEnvironment ''S'' [''X'' \<mapsto> ''1''] (registered Stdio 1))
     = Returned False \<and>
   BridgeManager_updateServerEnvironment allGood ''S'' [''X'' \<mapsto> ''1''] (registered Stdio 1) =
     (Returned (),
      (registered Stdio 1)\<lparr>servers := AList.update ''S''
         ((exampleInstance Stdio 1)\<lparr>si_config := (exampleServer Stdio 1)
            \<lparr>sc_env := Some (mergeEnv None [''X'' \<mapsto> ''1''])\<rparr>\<rparr>)
         (servers (registered Stdio 1))\<rparr>) \<and>
   mergeEnv None [''X'' \<mapsto> ''1''] ''X'' = Some ''1''"
proof -
  have registered: "map_of (servers (registered Stdio 1)) ''S'' = Some (exampleInstance Stdio 1)"
    by (simp add: registered_def registerServer_def exampleServer_def exampleInstance_def
          emptyState_def Let_def)
  have status: "si_status (exampleInstance Stdio 1) = STOPPED"
    and config: "si_config (exampleInstance Stdio 1) = exampleServer Stdio 1"
    and env: "sc_env (exampleServer Stdio 1) = None"
    by (simp_all add: exampleInstance_def exampleServer_def)
  show ?thesis
    using updateEnvironment_not_running [OF registered, of "[''X'' \<mapsto> ''1'']" allGood]
          registered status config env
    by simp
qed

text \<open>
  C8, as the code has it. The registry's \<open>updateServerEnvironment\<close> has no status check:
  for a server that is Starting, Stopping or in Error it merges the delta into
  \<open>config.env\<close> as for any other server and returns false (no restart needed).
\<close>

theorem mergeEnv_accepted_in_any_status:
  assumes "map_of (servers s) sid = Some server"
    and "si_status server = STARTING \<or> si_status server = STOPPING
         \<or> si_status server = SERVER_ERROR"
  shows "ServerRegistry_updateServerEnvironment sid delta s =
         (Returned False,
          s\<lparr>servers := AList.update sid
               (server\<lparr>si_config := (si_config server)
                  \<lparr>sc_env := Some (mergeEnv (sc_env (si_config server)) delta)\<rparr>\<rparr>)
               (servers s)\<rparr>)"
  using assms by (auto simp: registry_defs monad_defs)


theorem mergeEnv_accepted_in_any_status_witness:
  "map_of (servers (snd (updateServerStatus ''S'' STARTING None (registered Stdio 1)))) ''S''
     = Some ((exampleInstance Stdio 1)\<lparr>si_status := STARTING\<rparr>) \<and>
   ServerRegistry_updateServerEnvironment ''S'' [''X'' \<mapsto> ''1'']
       (snd (updateServerStatus ''S'' STARTING None (registered Stdio 1))) =
     (Returned False,
      (snd (updateServerStatus ''S'' STARTING None (registered Stdio 1)))
        \<lparr>servers := AList.update ''S''
           ((exampleInstance Stdio 1)\<lparr>si_status := STARTING,
               si_config := (exampleServer Stdio 1)
                 \<lparr>sc_env := Some (mergeEnv None [''X'' \<mapsto> ''1''])\<rparr>\<rparr>)
           (servers (snd (updateServerStatus ''S'' STARTING None (registered Stdio 1))))\<rparr>)"
proof -
  have starting:
    "map_of (servers (snd (updateServerStatus ''S'' STARTING None (registered Stdio 1)))) ''S''
       = Some ((exampleInstance Stdio 1)\<lparr>si_status := STARTING\<rparr>)"
    by (simp add: registered_def registerServer_def exampleServer_def exampleInstance_def
          emptyState_def Let_def registry_defs monad_defs)
  have config: "si_config (exampleInstance Stdio 1) = exampleServer Stdio 1"
    and env: "sc_env (exampleServer Stdio 1) = None"
    by (simp_all add: exampleInstance_def exampleServer_def)
  show ?thesis
    using mergeEnv_accepted_in_any_status [OF starting, of "[''X'' \<mapsto> ''1'']"] starting config env
    by simp
qed

text \<open>
  C8 as stated fails: on a server that is Starting and has no \<open>X\<close> in its env, the update
  is not rejected; it returns false and \<open>X\<close> is set.
\<close>

theorem mergeEnv_while_starting_counterexample:
  "serverStatus (snd (updateServerStatus ''S'' STARTING None (registered Stdio 1))) ''S''
     = Some STARTING \<and>
   serverEnv (snd (updateServerStatus ''S'' STARTING None (registered Stdio 1))) ''S'' ''X''
     = None \<and>
   fst (ServerRegistry_updateServerEnvironment ''S'' [''X'' \<mapsto> ''1'']
          (snd (updateServerStatus ''S'' STARTING None (registered Stdio 1))))
     = Returned False \<and>
   serverEnv (snd (ServerRegistry_updateServerEnvironment ''S'' [''X'' \<mapsto> ''1'']
                     (snd (updateServerStatus ''S'' STARTING None (registered Stdio 1)))))
       ''S'' ''X''
     = Some ''1''"
  by code_simp

text \<open>
  C4, as the code has it. \<open>BaseProtocolHandler.stop\<close> stops both adapters, the client
  adapter first: when both are started and both closes succeed, the handler is left with
  both adapters stopped (no transport), the two transports are closed in the order client,
  server, and nothing else of the state changes; in particular the entries of the server
  registry (the supervisor's own adapter and process) and the processes are as before.
\<close>

theorem handler_stop_closes_both:
  assumes "h_clientAdapter h = Some c" and "h_serverAdapter h = Some sa"
    and "a_transport c = Some tc" and "a_transport sa = Some ts"
    and "io_ok w (io s)" and "io_ok w (Suc (io s))"
  shows "handler_stop w h s =
     (Returned (),
      h\<lparr>h_clientAdapter := Some (stopped c), h_serverAdapter := Some (stopped sa)\<rparr>,
      s\<lparr>io := io s + 2, closedTransports := closedTransports s @ [tc, ts]\<rparr>)"
  using assms by (simp add: handler_stop_def stopAdapterField_def adapter_stop_ok)

theorem handler_stop_closes_both_witness:
  "map_option a_transport (h_clientAdapter memoryBridge) = Some (Some 1) \<and>
   map_option a_transport (h_serverAdapter memoryBridge) = Some (Some 2) \<and>
   io_ok allGood (io (connected Memory Memory)) \<and>
   io_ok allGood (Suc (io (connected Memory Memory))) \<and>
   handler_stop allGood memoryBridge (connected Memory Memory) =
     (Returned (),
      memoryBridge\<lparr>
        h_clientAdapter := Some (stopped ((newAdapter InMemory)
           \<lparr>a_transport := Some 1, a_otherTransport := Some 1,
            a_messageHandler := Some HandleClientMessage,
            a_errorHandler := True, a_closeHandler := True\<rparr>)),
        h_serverAdapter := Some (stopped ((newAdapter InMemory)
           \<lparr>a_transport := Some 2, a_otherTransport := Some 2,
            a_messageHandler := Some HandleServerMessage,
            a_errorHandler := True, a_closeHandler := True\<rparr>))\<rparr>,
      (connected Memory Memory)\<lparr>io := io (connected Memory Memory) + 2,
         closedTransports := closedTransports (connected Memory Memory) @ [1, 2]\<rparr>)"
proof -
  have client: "h_clientAdapter memoryBridge = Some ((newAdapter InMemory)
           \<lparr>a_transport := Some 1, a_otherTransport := Some 1,
            a_messageHandler := Some HandleClientMessage,
            a_errorHandler := True, a_closeHandler := True\<rparr>)"
    and server: "h_serverAdapter memoryBridge = Some ((newAdapter InMemory)
           \<lparr>a_transport := Some 2, a_otherTransport := Some 2,
            a_messageHandler := Some HandleServerMessage,
            a_errorHandler := True, a_closeHandler := True\<rparr>)"
    by (simp_all add: memoryBridge_def createMemoryToMemoryHandler_def createHandler_def
          setClientAdapter_def setServerAdapter_def newAdapter_def)
  have ok: "io_ok allGood (io (connected Memory Memory))"
           "io_ok allGood (Suc (io (connected Memory Memory)))"
    by (simp_all add: allGood_def)
  show ?thesis
    using handler_stop_closes_both [OF client server _ _ ok, of 1 2] client server ok
    by (simp add: newAdapter_def)
qed

text \<open>
  C4 as stated fails: the handler stored for the connected memory client is
  \<open>memoryBridge\<close>, its server adapter is open on transport 2, and after \<open>stop()\<close> that
  adapter has no transport and transport 2 has been closed.
\<close>

theorem handler_stop_closes_server_adapter_counterexample:
  "map_of (bridges (connected Memory Memory)) ''u'' = Some memoryBridge \<and>
   map_option a_transport (h_serverAdapter memoryBridge) = Some (Some 2) \<and>
   fst (handler_stop allGood memoryBridge (connected Memory Memory)) = Returned () \<and>
   map_option a_transport
     (h_serverAdapter (fst (snd (handler_stop allGood memoryBridge (connected Memory Memory)))))
     = Some None \<and>
   closedTransports (snd (snd (handler_stop allGood memoryBridge (connected Memory Memory))))
     = [1, 2]"
  by code_simp




text \<open>
  C1: the code at a failing input. The memory server \<open>S\<close> is Running and the memory
  client \<open>B\<close> is Connected under the id \<open>u\<close>. The hot swap merges the env, disconnects
  \<open>u\<close> (which stays in the registry), restarts the server, and then fails to reconnect:
  the remembered config carries the id \<open>u\<close>, so \<open>createConnection\<close> throws
  CONNECTION_ALREADY_EXISTS. The call throws; the server is Running with the new env and
  the only connection is Disconnected. Lemma \<open>hot_swap_never_returns\<close> shows that this
  is no accident of the example: whenever the Running server has a registered connection,
  the call does not return.
\<close>

theorem hot_swap_throws_on_reconnect:
  "serverStatus (connected Memory Memory) ''S'' = Some RUNNING \<and>
   connectionStatus (connected Memory Memory) ''u'' = Some CONNECTED \<and>
   fst (BridgeManager_updateServerEnvironment allGood ''S'' [''X'' \<mapsto> ''1'']
          (connected Memory Memory))
     = Thrown (BridgeError CONNECTION_ALREADY_EXISTS None) \<and>
   map (ci_status \<circ> snd)
     (connections (snd (BridgeManager_updateServerEnvironment allGood ''S'' [''X'' \<mapsto> ''1'']
                          (connected Memory Memory))))
     = [DISCONNECTED] \<and>
   serverStatus (snd (BridgeManager_updateServerEnvironment allGood ''S'' [''X'' \<mapsto> ''1'']
                        (connected Memory Memory))) ''S''
     = Some RUNNING \<and>
   serverEnv (snd (BridgeManager_updateServerEnvironment allGood ''S'' [''X'' \<mapsto> ''1'']
                     (connected Memory Memory))) ''S'' ''X''
     = Some ''1''"
  by code_simp

text \<open>
  C2: the code at a failing input. The stdio server \<open>S\<close> has autoRestart and
  maxRestarts = 1 and its process dies each time. Every restart goes through
  \<open>startServer\<close>, which resets the restart count, so after two crashes and two restarts
  (three processes spawned) the server is Running with count 0, and a third crash queues a
  third restart. Lemma \<open>crash_rounds\<close> shows the same for every bound of at least one
  and every number of rounds: after \<open>k\<close> crashes \<open>k\<close> restarts have been made and the
  server is Running with count 0.
\<close>

theorem restart_loop_not_bounded:
  "sc_maxRestarts (exampleServer Stdio 1) = Some 1 \<and>
   length (procs (started Stdio 1)) = 1 \<and>
   length (procs (afterEvents
      [processExit 0, fireTimer allGood, processExit 1, fireTimer allGood]
      (started Stdio 1))) = 3 \<and>
   serverStatus (afterEvents
      [processExit 0, fireTimer allGood, processExit 1, fireTimer allGood]
      (started Stdio 1)) ''S'' = Some RUNNING \<and>
   serverRestartCount (afterEvents
      [processExit 0, fireTimer allGood, processExit 1, fireTimer allGood]
      (started Stdio 1)) ''S'' = Some 0 \<and>
   timers (afterEvents
      [processExit 0, fireTimer allGood, processExit 1, fireTimer allGood, processExit 2]
      (started Stdio 1)) = [(10, ''S'')]"
  by code_simp

text \<open>
  C3: the code at a failing input. A stdio client for the Running stdio server \<open>S\<close>:
  the connection \<open>u\<close> is reserved, the dispatch rejects the combination, and the call
  throws CONNECTION_FAILED with that cause. The catch block sets the connection to Error
  before it calls \<open>removeConnection\<close>, which refuses a connection that is not
  Disconnected; so \<open>u\<close> stays in the registry, in Error. No handler is stored for it.
  Lemma \<open>connectToServer_outcome\<close> shows the same for every connect that throws after
  the reservation: CONNECTION_FAILED with the cause, no handler, and the connection still
  registered, in Error.
\<close>

theorem failed_connect_keeps_connection:
  "connectionStatus (started Stdio 1) ''u'' = None \<and>
   fst (connectToServer allGood (exampleClient Stdio) None (started Stdio 1)) =
     Thrown (BridgeError CONNECTION_FAILED (Some (BridgeError INVALID_CONFIGURATION None))) \<and>
   connectionStatus (snd (connectToServer allGood (exampleClient Stdio) None (started Stdio 1)))
     ''u'' = Some CONNECTION_ERROR \<and>
   map fst (bridges (snd (connectToServer allGood (exampleClient Stdio) None (started Stdio 1))))
     = []"
  by code_simp

text \<open>
  C6: the code at a failing input. The stdio server \<open>S\<close> has autoRestart and is Running.
  An operator stop sets Stopping and kills the process; the exit watcher, which does not
  look at the status, counts a restart and queues it. The stop returns with the restart
  pending, and when the timer fires the server is Running again. The same happens when the
  exit arrives on its own while the status is Stopping. Lemma \<open>exitWatcher_any_status\<close>
  shows that the watcher queues the restart in every status, whenever the restart policy
  allows one.
\<close>

theorem exit_during_stop_schedules_restart:
  "serverStatus (started Stdio 1) ''S'' = Some RUNNING \<and>
   fst (stopServer allGood ''S'' (started Stdio 1)) = Returned () \<and>
   timers (snd (stopServer allGood ''S'' (started Stdio 1))) = [(10, ''S'')] \<and>
   serverStatus (afterEvents [stopServer allGood ''S'', fireTimer allGood] (started Stdio 1)) ''S''
     = Some RUNNING \<and>
   serverStatus (snd (updateServerStatus ''S'' STOPPING None (started Stdio 1))) ''S''
     = Some STOPPING \<and>
   timers (afterEvents [updateServerStatus ''S'' STOPPING None, processExit 0] (started Stdio 1))
     = [(10, ''S'')]"
  by code_simp

end
